theory Spec2Isabelle
  imports Main
begin

section \<open>Strings and integers of the source language\<close>

text \<open>
  A Python \<open>str\<close> is modelled as a \<open>string\<close>, a list of characters, where a character is
  a code point from U+0000 to U+00FF (\<open>CHR 0xD1\<close> is the capital N with tilde). On
  these code points the classes and the case folding below are those of Python: the white
  space of \<open>str.strip\<close> and of \<open>\s\<close> includes the no-break space U+00A0 and the next-line
  character U+0085, the decimal digits of \<open>\d\<close> and of \<open>int\<close> are \<open>0\<close> to \<open>9\<close>, and
  \<open>str.lower\<close> folds \<open>A\<close> to \<open>Z\<close> and the capitals from U+00C0 to U+00DE, the
  multiplication sign U+00D7 apart. Text with a code point above U+00FF is outside the
  model. A Python \<open>int\<close> is an \<open>int\<close>.
\<close>

definition isspace :: "char \<Rightarrow> bool" where
  \<comment> \<open>\<open>str.isspace\<close> on one character; also the class \<open>\s\<close> of \<open>re\<close>\<close>
  "isspace c = (c \<in> set [CHR 0x09, CHR 0x0A, CHR 0x0B, CHR 0x0C, CHR 0x0D,
                           CHR 0x1C, CHR 0x1D, CHR 0x1E, CHR 0x1F, CHR '' '',
                           CHR 0x85, CHR 0xA0])"

definition int_space :: "char \<Rightarrow> bool" where
  \<comment> \<open>the white space \<open>int\<close> accepts around a literal: that of \<open>str.isspace\<close> without the
      four separators from U+001C to U+001F\<close>
  "int_space c = (c \<in> set [CHR 0x09, CHR 0x0A, CHR 0x0B, CHR 0x0C, CHR 0x0D, CHR '' '',
                             CHR 0x85, CHR 0xA0])"

definition decimal_digit :: "char \<Rightarrow> bool" where
  \<comment> \<open>the class \<open>\d\<close> of \<open>re\<close>, and the digits \<open>int\<close> reads\<close>
  "decimal_digit c = (c \<in> set ''0123456789'')"

definition ascii_letter :: "char \<Rightarrow> bool" where
  \<comment> \<open>the class \<open>[A-Za-z]\<close>\<close>
  "ascii_letter c = (c \<in> set ''ABCDEFGHIJKLMNOPQRSTUVWXYZabcdefghijklmnopqrstuvwxyz'')"

definition digit_val :: "char \<Rightarrow> nat" where
  "digit_val c = of_char c - 48"

definition strip_with :: "(char \<Rightarrow> bool) \<Rightarrow> string \<Rightarrow> string" where
  \<comment> \<open>the string without the characters of a class at its two ends\<close>
  "strip_with sp s = rev (dropWhile sp (rev (dropWhile sp s)))"

definition strip :: "string \<Rightarrow> string" where
  \<comment> \<open>\<open>s.strip()\<close>\<close>
  "strip s = strip_with isspace s"

definition upper_case :: string where
  \<comment> \<open>the characters \<open>str.lower\<close> changes: \<open>A\<close> to \<open>Z\<close>, and U+00C0 to U+00DE without
      U+00D7\<close>
  "upper_case =
     ''ABCDEFGHIJKLMNOPQRSTUVWXYZ''
     @ [CHR 0xC0, CHR 0xC1, CHR 0xC2, CHR 0xC3, CHR 0xC4, CHR 0xC5, CHR 0xC6, CHR 0xC7,
        CHR 0xC8, CHR 0xC9, CHR 0xCA, CHR 0xCB, CHR 0xCC, CHR 0xCD, CHR 0xCE, CHR 0xCF,
        CHR 0xD0, CHR 0xD1, CHR 0xD2, CHR 0xD3, CHR 0xD4, CHR 0xD5, CHR 0xD6,
        CHR 0xD8, CHR 0xD9, CHR 0xDA, CHR 0xDB, CHR 0xDC, CHR 0xDD, CHR 0xDE]"

definition lower_case :: string where
  \<comment> \<open>what \<open>str.lower\<close> makes of them, in the same order: each is 32 code points above\<close>
  "lower_case =
     ''abcdefghijklmnopqrstuvwxyz''
     @ [CHR 0xE0, CHR 0xE1, CHR 0xE2, CHR 0xE3, CHR 0xE4, CHR 0xE5, CHR 0xE6, CHR 0xE7,
        CHR 0xE8, CHR 0xE9, CHR 0xEA, CHR 0xEB, CHR 0xEC, CHR 0xED, CHR 0xEE, CHR 0xEF,
        CHR 0xF0, CHR 0xF1, CHR 0xF2, CHR 0xF3, CHR 0xF4, CHR 0xF5, CHR 0xF6,
        CHR 0xF8, CHR 0xF9, CHR 0xFA, CHR 0xFB, CHR 0xFC, CHR 0xFD, CHR 0xFE]"

definition lower_char :: "char \<Rightarrow> char" where
  "lower_char c = (case map_of (zip upper_case lower_case) c of Some l \<Rightarrow> l | None \<Rightarrow> c)"

definition lower :: "string \<Rightarrow> string" where
  \<comment> \<open>\<open>s.lower()\<close>\<close>
  "lower s = map lower_char s"

fun startswith :: "string \<Rightarrow> string \<Rightarrow> bool" where
  \<comment> \<open>\<open>s.startswith(p)\<close>\<close>
  "startswith s [] = True"
| "startswith [] (p # ps) = False"
| "startswith (c # cs) (p # ps) = (c = p \<and> startswith cs ps)"

fun py_in :: "string \<Rightarrow> string \<Rightarrow> bool" where
  \<comment> \<open>\<open>q in s\<close> on strings: \<open>q\<close> occurs in \<open>s\<close> as a contiguous run\<close>
  "py_in q [] = (q = [])"
| "py_in q (c # cs) = (startswith (c # cs) q \<or> py_in q cs)"

fun py_split :: "string \<Rightarrow> string \<Rightarrow> string \<Rightarrow> string list" where
  \<comment> \<open>\<open>s.split(sep)\<close> for a non-empty \<open>sep\<close>, scanning from the left; the second
      argument holds the characters of the current piece, last one first\<close>
  "py_split sep cur [] = [rev cur]"
| "py_split sep cur (c # cs) =
     (if startswith (c # cs) sep
      then rev cur # py_split sep [] (drop (length sep - 1) cs)
      else py_split sep (c # cur) cs)"

fun digits_of :: "nat \<Rightarrow> string" where
  \<comment> \<open>the decimal digits of a natural number, as \<open>str\<close> prints them\<close>
  "digits_of n =
     (if n < 10 then [''0123456789'' ! n]
      else digits_of (n div 10) @ [''0123456789'' ! (n mod 10)])"

definition zfill :: "nat \<Rightarrow> string \<Rightarrow> string" where
  "zfill w s = replicate (w - length s) (CHR ''0'') @ s"

definition format_03d :: "int \<Rightarrow> string" where
  \<comment> \<open>the format specification \<open>:03d\<close>: width 3, zero padded, the sign counted in the width\<close>
  "format_03d n =
     (if n < 0 then CHR ''-'' # zfill 2 (digits_of (nat (- n)))
      else zfill 3 (digits_of (nat n)))"

fun int_digits :: "nat \<Rightarrow> string \<Rightarrow> nat option" where
  \<comment> \<open>the rest of a decimal literal after a digit; one underscore may separate two digits\<close>
  "int_digits acc [] = Some acc"
| "int_digits acc (c # cs) =
     (if decimal_digit c then int_digits (10 * acc + digit_val c) cs
      else if c = CHR ''_'' then
        (case cs of
           [] \<Rightarrow> None
         | d # ds \<Rightarrow> if decimal_digit d then int_digits (10 * acc + digit_val d) ds else None)
      else None)"

definition int_unsigned :: "string \<Rightarrow> nat option" where
  "int_unsigned s =
     (case s of
        [] \<Rightarrow> None
      | c # cs \<Rightarrow> if decimal_digit c then int_digits (digit_val c) cs else None)"

definition py_int :: "string \<Rightarrow> int option" where
  \<comment> \<open>\<open>int(s)\<close> in base 10; \<open>None\<close> is the \<open>ValueError\<close>\<close>
  "py_int s =
     (case strip_with int_space s of
        [] \<Rightarrow> None
      | c # cs \<Rightarrow>
          if c = CHR ''-'' then map_option (\<lambda>n. - int n) (int_unsigned cs)
          else if c = CHR ''+'' then map_option int (int_unsigned cs)
          else map_option int (int_unsigned (c # cs)))"

section \<open>Regular expressions used by the source\<close>

text \<open>
  The patterns of the source are sequences of a few kinds of atom. Matching an atom at the
  head of a string gives the candidate matches in the order a backtracking matcher tries
  them (greedy repetitions: longest first), each with the text it consumed and the rest.
\<close>

datatype atom =
    Digits nat nat   \<comment> \<open>\<open>\d{lo,hi}\<close>\<close>
  | OneOf string     \<comment> \<open>a bracket class such as \<open>[./]\<close>, or one literal character\<close>
  | Spaces           \<comment> \<open>\<open>\s+\<close>\<close>
  | Alphas           \<comment> \<open>\<open>[A-Za-z]+\<close>\<close>

definition prefixes_desc :: "nat \<Rightarrow> nat \<Rightarrow> string \<Rightarrow> (string \<times> string) list" where
  \<comment> \<open>the splits of \<open>s\<close> after \<open>k\<close> characters, for \<open>k\<close> from \<open>hi\<close> down to \<open>lo\<close>\<close>
  "prefixes_desc lo hi s = map (\<lambda>k. (take k s, drop k s)) (rev [lo ..< Suc hi])"

fun atom_match :: "atom \<Rightarrow> string \<Rightarrow> (string \<times> string) list" where
  "atom_match (Digits lo hi) s = prefixes_desc lo (min hi (length (takeWhile decimal_digit s))) s"
| "atom_match (OneOf cs) s =
     (case s of [] \<Rightarrow> [] | c # r \<Rightarrow> if c \<in> set cs then [([c], r)] else [])"
| "atom_match Spaces s = prefixes_desc 1 (length (takeWhile isspace s)) s"
| "atom_match Alphas s = prefixes_desc 1 (length (takeWhile ascii_letter s)) s"

fun rx_match :: "atom list \<Rightarrow> string \<Rightarrow> (string list \<times> string) list" where
  \<comment> \<open>the matches of a sequence of atoms at the head of a string, in backtracking order,
      each with the text of every atom and the unmatched rest\<close>
  "rx_match [] s = [([], s)]"
| "rx_match (a # as) s =
     concat (map (\<lambda>m. map (\<lambda>ms. (fst m # fst ms, snd ms)) (rx_match as (snd m)))
                 (atom_match a s))"

definition re_match :: "atom list \<Rightarrow> string \<Rightarrow> string list option" where
  \<comment> \<open>\<open>re.match('^...$', s)\<close>: the first match that ends at the end of the string, or just
      before a newline that ends the string (the meaning of \<open>$\<close>)\<close>
  "re_match p s =
     (case filter (\<lambda>m. snd m = [] \<or> snd m = [CHR 0x0A]) (rx_match p s) of
        [] \<Rightarrow> None
      | m # _ \<Rightarrow> Some (fst m))"

definition lits :: "string \<Rightarrow> atom list" where
  \<comment> \<open>a run of literal characters\<close>
  "lits s = map (\<lambda>c. OneOf [c]) s"

section \<open>Dates: \<open>datetime\<close>, \<open>strptime\<close> and \<open>strftime\<close>\<close>

record pydatetime =
  dt_year :: nat
  dt_month :: nat
  dt_day :: nat
  dt_hour :: nat
  dt_minute :: nat
  dt_second :: nat

definition is_leap :: "nat \<Rightarrow> bool" where
  "is_leap y = (y mod 4 = 0 \<and> (y mod 100 \<noteq> 0 \<or> y mod 400 = 0))"

definition days_in_month :: "nat \<Rightarrow> nat \<Rightarrow> nat" where
  "days_in_month y m =
     (if m = 2 then (if is_leap y then 29 else 28)
      else if m \<in> set [4, 6, 9, 11] then 30 else 31)"

definition datetime :: "nat \<Rightarrow> nat \<Rightarrow> nat \<Rightarrow> nat \<Rightarrow> nat \<Rightarrow> nat \<Rightarrow> pydatetime option" where
  \<comment> \<open>the constructor \<open>datetime(y, m, d, H, M, S)\<close>; \<open>None\<close> is its \<open>ValueError\<close>\<close>
  "datetime y m d H M S =
     (if 1 \<le> y \<and> y \<le> 9999 \<and> 1 \<le> m \<and> m \<le> 12 \<and> 1 \<le> d \<and> d \<le> days_in_month y m
         \<and> H < 24 \<and> M < 60 \<and> S < 60
      then Some \<lparr>dt_year = y, dt_month = m, dt_day = d,
                 dt_hour = H, dt_minute = M, dt_second = S\<rparr>
      else None)"

text \<open>
  \<open>strptime\<close> turns its format into a regular expression, one group per directive, takes
  the first match at the head of the string and rejects the input when text remains
  after it. The groups below are those of the standard library, alternatives in its order.
  The month names of \<open>%B\<close> and the markers of \<open>%p\<close> are those of an English locale and are
  matched without regard to case.
\<close>

datatype directive =
    Dir_m | Dir_d | Dir_Y | Dir_H | Dir_I | Dir_M | Dir_S | Dir_B | Dir_p
  | Lit char   \<comment> \<open>a literal character of the format\<close>
  | Blank      \<comment> \<open>white space in the format, matched as \<open>\s+\<close>\<close>

definition two_digits :: "string \<Rightarrow> string \<Rightarrow> string \<Rightarrow> (nat \<times> string) list" where
  \<comment> \<open>a character of the first class, then one of the second\<close>
  "two_digits c1 c2 s =
     (case s of
        a # b # r \<Rightarrow>
          if a \<in> set c1 \<and> b \<in> set c2 then [(10 * digit_val a + digit_val b, r)] else []
      | _ \<Rightarrow> [])"

definition one_digit :: "string \<Rightarrow> string \<Rightarrow> (nat \<times> string) list" where
  "one_digit c1 s =
     (case s of a # r \<Rightarrow> if a \<in> set c1 then [(digit_val a, r)] else [] | _ \<Rightarrow> [])"

definition month_names :: "(string \<times> nat) list" where
  \<comment> \<open>the full month names, longest first as the library sorts them\<close>
  "month_names =
     [(''september'', 9), (''february'', 2), (''november'', 11), (''december'', 12),
      (''january'', 1), (''october'', 10), (''august'', 8), (''march'', 3),
      (''april'', 4), (''june'', 6), (''july'', 7), (''may'', 5)]"

definition word_match :: "(string \<times> nat) list \<Rightarrow> string \<Rightarrow> (nat \<times> string) list" where
  \<comment> \<open>an alternation of words, matched without regard to case\<close>
  "word_match ws s =
     concat (map (\<lambda>w. if startswith (lower s) (fst w)
                       then [(snd w, drop (length (fst w)) s)] else []) ws)"

fun dir_match :: "directive \<Rightarrow> string \<Rightarrow> (nat \<times> string) list" where
  "dir_match Dir_m s =
     two_digits ''1'' ''012'' s @ two_digits ''0'' ''123456789'' s @ one_digit ''123456789'' s"
| "dir_match Dir_d s =
     two_digits ''3'' ''01'' s @ two_digits ''12'' ''0123456789'' s
       @ two_digits ''0'' ''123456789'' s @ one_digit ''123456789'' s
       @ (case s of a # r \<Rightarrow> if a = CHR '' '' then one_digit ''123456789'' r else []
          | _ \<Rightarrow> [])"
| "dir_match Dir_Y s =
     (case s of
        a # b # c # d # r \<Rightarrow>
          if decimal_digit a \<and> decimal_digit b \<and> decimal_digit c \<and> decimal_digit d
          then [(1000 * digit_val a + 100 * digit_val b + 10 * digit_val c + digit_val d, r)]
          else []
      | _ \<Rightarrow> [])"
| "dir_match Dir_H s =
     two_digits ''2'' ''0123'' s @ two_digits ''01'' ''0123456789'' s
       @ one_digit ''0123456789'' s"
| "dir_match Dir_I s =
     two_digits ''1'' ''012'' s @ two_digits ''0'' ''123456789'' s @ one_digit ''123456789'' s"
| "dir_match Dir_M s = two_digits ''012345'' ''0123456789'' s @ one_digit ''0123456789'' s"
| "dir_match Dir_S s =
     two_digits ''6'' ''01'' s @ two_digits ''012345'' ''0123456789'' s
       @ one_digit ''0123456789'' s"
| "dir_match Dir_B s = word_match month_names s"
| "dir_match Dir_p s = word_match [(''am'', 0), (''pm'', 1)] s"
| "dir_match (Lit c) s = (case s of a # r \<Rightarrow> if a = c then [(0, r)] else [] | _ \<Rightarrow> [])"
| "dir_match Blank s =
     map (\<lambda>m. (0, snd m)) (prefixes_desc 1 (length (takeWhile isspace s)) s)"

fun fmt_match :: "directive list \<Rightarrow> string \<Rightarrow> ((directive \<times> nat) list \<times> string) list" where
  \<comment> \<open>the matches of a whole format, in backtracking order, with the value of each group\<close>
  "fmt_match [] s = [([], s)]"
| "fmt_match (d # ds) s =
     concat (map (\<lambda>m. map (\<lambda>ms. ((d, fst m) # fst ms, snd ms)) (fmt_match ds (snd m)))
                 (dir_match d s))"

definition field :: "(directive \<times> nat) list \<Rightarrow> directive \<Rightarrow> nat \<Rightarrow> nat" where
  \<comment> \<open>the value of a group, or the default of a field the format does not name\<close>
  "field vs d dflt = (case map_of vs d of Some v \<Rightarrow> v | None \<Rightarrow> dflt)"

definition hour_from :: "(directive \<times> nat) list \<Rightarrow> nat" where
  \<comment> \<open>\<open>%H\<close> as it is; \<open>%I\<close> with \<open>%p\<close>: 12 AM is hour 0, PM adds 12 except to 12\<close>
  "hour_from vs =
     (case map_of vs Dir_I of
        None \<Rightarrow> field vs Dir_H 0
      | Some h \<Rightarrow>
          if field vs Dir_p 0 = 0 then (if h = 12 then 0 else h)
          else (if h = 12 then h else h + 12))"

definition strptime :: "string \<Rightarrow> directive list \<Rightarrow> pydatetime option" where
  \<comment> \<open>\<open>datetime.strptime(s, format)\<close>; \<open>None\<close> is the \<open>ValueError\<close>\<close>
  "strptime s fmt =
     (case fmt_match fmt s of
        [] \<Rightarrow> None
      | m # _ \<Rightarrow>
          if snd m \<noteq> [] then None
          else datetime (field (fst m) Dir_Y 1900) (field (fst m) Dir_m (field (fst m) Dir_B 1))
                        (field (fst m) Dir_d 1)
                        (hour_from (fst m)) (field (fst m) Dir_M 0) (field (fst m) Dir_S 0))"

definition fmt_mdY :: "char \<Rightarrow> directive list" where
  \<comment> \<open>\<open>%m/%d/%Y\<close> and \<open>%m-%d-%Y\<close>\<close>
  "fmt_mdY sep = [Dir_m, Lit sep, Dir_d, Lit sep, Dir_Y]"

definition fmt_Ymd :: "directive list" where
  \<comment> \<open>\<open>%Y-%m-%d\<close>\<close>
  "fmt_Ymd = [Dir_Y, Lit (CHR ''-''), Dir_m, Lit (CHR ''-''), Dir_d]"

definition fmt_HMS :: "directive list" where
  \<comment> \<open>\<open> %H:%M:%S\<close>, with the blank before it\<close>
  "fmt_HMS = [Blank, Dir_H, Lit (CHR '':''), Dir_M, Lit (CHR '':''), Dir_S]"

definition fmt_BdY :: "directive list" where
  \<comment> \<open>\<open>%B %d, %Y\<close>\<close>
  "fmt_BdY = [Dir_B, Blank, Dir_d, Lit (CHR '',''), Blank, Dir_Y]"

definition fmt_IMp :: "directive list" where
  \<comment> \<open>\<open>%I:%M %p\<close>\<close>
  "fmt_IMp = [Dir_I, Lit (CHR '':''), Dir_M, Blank, Dir_p]"

record env =
  now :: string
    \<comment> \<open>\<open>datetime.now().strftime("%Y-%m-%d %H:%M:%S")\<close>\<close>
  pd_to_datetime :: "string \<Rightarrow> pydatetime option"
    \<comment> \<open>the generic parser of the external library \<open>pandas\<close>; \<open>None\<close> when the library is
        absent, when it raises and when it returns no time\<close>
  pads_year :: bool
    \<comment> \<open>whether \<open>%Y\<close> of the platform's \<open>strftime\<close> pads a year below 1000 with zeros to
        four digits (the C library of Windows does, that of Linux does not)\<close>

definition year_text :: "env \<Rightarrow> nat \<Rightarrow> string" where
  \<comment> \<open>\<open>%Y\<close> of \<open>strftime\<close>\<close>
  "year_text e y =
     (if 1000 \<le> y \<or> \<not> pads_year e then digits_of y else zfill 4 (digits_of y))"

definition strftime_date :: "env \<Rightarrow> pydatetime \<Rightarrow> string" where
  \<comment> \<open>\<open>strftime('%Y-%m-%d')\<close>\<close>
  "strftime_date e d =
     year_text e (dt_year d) @ ''-'' @ zfill 2 (digits_of (dt_month d)) @ ''-''
       @ zfill 2 (digits_of (dt_day d))"

definition strftime_datetime :: "env \<Rightarrow> pydatetime \<Rightarrow> string" where
  \<comment> \<open>\<open>strftime('%Y-%m-%d %H:%M:%S')\<close>\<close>
  "strftime_datetime e d =
     strftime_date e d @ '' '' @ zfill 2 (digits_of (dt_hour d)) @ '':''
       @ zfill 2 (digits_of (dt_minute d)) @ '':'' @ zfill 2 (digits_of (dt_second d))"

section \<open>The date normalizer\<close>

datatype date_format = us_format | us_format_time | strptime_format "directive list"

definition date_patterns :: "(atom list \<times> date_format) list" where
  "date_patterns =
     [([Digits 1 2, OneOf ''./'', Digits 1 2, OneOf ''./'', Digits 4 4], us_format),
      ([Digits 1 2, OneOf ''-'', Digits 1 2, OneOf ''-'', Digits 4 4],
         strptime_format (fmt_mdY (CHR ''-''))),
      ([Digits 4 4, OneOf ''-'', Digits 1 2, OneOf ''-'', Digits 1 2],
         strptime_format fmt_Ymd),
      ([Digits 4 4, OneOf ''-'', Digits 1 2, OneOf ''-'', Digits 1 2, Spaces,
        Digits 1 2, OneOf '':'', Digits 1 2, OneOf '':'', Digits 1 2],
         strptime_format (fmt_Ymd @ fmt_HMS)),
      ([Digits 1 2, OneOf ''./'', Digits 1 2, OneOf ''./'', Digits 4 4, Spaces,
        Digits 1 2, OneOf '':'', Digits 1 2, OneOf '':'', Digits 1 2],
         us_format_time)]"

definition parse_with :: "date_format \<Rightarrow> string list \<Rightarrow> string \<Rightarrow> pydatetime option" where
  \<comment> \<open>the body of the \<open>try\<close>; the list holds the text of every atom of the pattern, so the
      groups of the source are its elements 0, 2, 4, 6, 8 and 10\<close>
  "parse_with f g date_str =
     (case f of
        us_format \<Rightarrow>
          strptime (g ! 0 @ ''/'' @ g ! 2 @ ''/'' @ g ! 4) (fmt_mdY (CHR ''/''))
      | us_format_time \<Rightarrow>
          strptime (g ! 0 @ ''/'' @ g ! 2 @ ''/'' @ g ! 4 @ '' '' @ g ! 6 @ '':'' @ g ! 8
                      @ '':'' @ g ! 10)
                   (fmt_mdY (CHR ''/'') @ fmt_HMS)
      | strptime_format fmt \<Rightarrow> strptime date_str fmt)"

definition format_parsed :: "env \<Rightarrow> pydatetime \<Rightarrow> string" where
  \<comment> \<open>the date alone when the time is midnight, the date and the time otherwise\<close>
  "format_parsed e d =
     (if dt_hour d = 0 \<and> dt_minute d = 0 \<and> dt_second d = 0 then strftime_date e d
      else strftime_datetime e d)"

fun try_patterns :: "(atom list \<times> date_format) list \<Rightarrow> string \<Rightarrow> pydatetime option" where
  \<comment> \<open>the loop over the patterns, up to the time it parses: the first pattern that
      matches and whose parse succeeds; a \<open>ValueError\<close> of the parse goes on to the next
      pattern. \<open>None\<close>: the loop ends without a \<open>return\<close>.\<close>
  "try_patterns [] s = None"
| "try_patterns (p # ps) s =
     (case re_match (fst p) s of
        None \<Rightarrow> try_patterns ps s
      | Some g \<Rightarrow>
          (case parse_with (snd p) g s of
             None \<Rightarrow> try_patterns ps s
           | Some d \<Rightarrow> Some d))"

definition parse_and_format_date :: "env \<Rightarrow> string \<Rightarrow> string option" where
  \<comment> \<open>\<open>RecordKeeper._parse_and_format_date\<close>; the result \<open>None\<close> is Python's \<open>None\<close>\<close>
  "parse_and_format_date e date_str =
     (if date_str = [] \<or> lower (strip date_str) \<in> set [''nan'', ''nat'', ''none'', []]
      then None
      else
        (case try_patterns date_patterns (strip date_str) of
           Some d \<Rightarrow> Some (format_parsed e d)
         | None \<Rightarrow>
             (case pd_to_datetime e (strip date_str) of
                Some d \<Rightarrow> Some (format_parsed e d)
              | None \<Rightarrow> Some (strip date_str))))"

definition is_readable_format :: "string \<Rightarrow> bool" where
  \<comment> \<open>\<open>RecordKeeper._is_readable_format\<close>\<close>
  "is_readable_format date_str =
     (if date_str = [] \<or> date_str = ''No Date'' then False
      else
        re_match ([Alphas] @ lits '' '' @ [Digits 1 2] @ lits '', '' @ [Digits 4 4]) date_str
          \<noteq> None
        \<or> re_match ([Alphas] @ lits '' '' @ [Digits 1 2] @ lits '', '' @ [Digits 4 4]
                      @ lits '' at '' @ [Digits 1 2] @ lits '':'' @ [Digits 2 2] @ lits '' ''
                      @ [OneOf ''AP''] @ lits ''M'') date_str
          \<noteq> None)"

definition convert_readable_to_iso :: "env \<Rightarrow> string \<Rightarrow> string option" where
  \<comment> \<open>\<open>RecordKeeper._convert_readable_to_iso\<close>; every \<open>ValueError\<close> (of the unpacking of
      the split, of either parse) returns the input\<close>
  "convert_readable_to_iso e date_str =
     (if date_str = [] then None
      else if py_in '' at '' date_str then
        (case py_split '' at '' [] date_str of
           [date_part, time_part] \<Rightarrow>
             (case strptime date_part fmt_BdY of
                None \<Rightarrow> Some date_str
              | Some d \<Rightarrow>
                  (case strptime time_part fmt_IMp of
                     None \<Rightarrow> Some date_str
                   | Some t \<Rightarrow>
                       Some (strftime_datetime e
                               (d\<lparr>dt_hour := dt_hour t, dt_minute := dt_minute t,
                                   dt_second := dt_second t\<rparr>))))
         | _ \<Rightarrow> Some date_str)
      else
        (case strptime date_str fmt_BdY of
           None \<Rightarrow> Some date_str
         | Some d \<Rightarrow> Some (strftime_date e d)))"

definition needs_date_format_update :: "string \<Rightarrow> bool" where
  \<comment> \<open>\<open>RecordKeeper._needs_date_format_update\<close>; the optional time group of each pattern
      is written as two patterns, without and with it\<close>
  "needs_date_format_update date_str =
     (if date_str = [] \<or> date_str = ''No Date'' then False
      else
        (re_match [Digits 1 2, OneOf ''./'', Digits 1 2, OneOf ''./'', Digits 4 4] date_str
           \<noteq> None
         \<or> re_match [Digits 1 2, OneOf ''./'', Digits 1 2, OneOf ''./'', Digits 4 4, Spaces,
                      Digits 1 2, OneOf '':'', Digits 2 2, OneOf '':'', Digits 2 2] date_str
           \<noteq> None)
        \<and> \<not> (re_match [Digits 4 4, OneOf ''-'', Digits 1 2, OneOf ''-'', Digits 1 2] date_str
                \<noteq> None
              \<or> re_match [Digits 4 4, OneOf ''-'', Digits 1 2, OneOf ''-'', Digits 1 2, Spaces,
                           Digits 1 2, OneOf '':'', Digits 2 2, OneOf '':'', Digits 2 2] date_str
                \<noteq> None))"

section \<open>Records and the identifier counter\<close>

record document_record =
  record_id :: string
  date :: string
  sender :: string
  subject :: string
  destination :: string
  status :: string

definition generate_id :: "int option \<Rightarrow> (string \<times> int option) option" where
  \<comment> \<open>\<open>DocumentRecord._generate_id\<close> on the class counter: the id and the new counter.
      \<open>None\<close> is the \<open>TypeError\<close> of incrementing a counter that is still \<open>None\<close>.\<close>
  "generate_id counter =
     (case counter of
        None \<Rightarrow> None
      | Some c \<Rightarrow> Some (''MAYOR'S OFFICE - '' @ format_03d (c + 1), Some (c + 1)))"

definition DocumentRecord ::
  "string \<Rightarrow> int option \<Rightarrow> string \<Rightarrow> string \<Rightarrow> string \<Rightarrow> string option \<Rightarrow> string option
     \<Rightarrow> bool \<Rightarrow> string \<Rightarrow> (document_record \<times> int option) option" where
  \<comment> \<open>\<open>DocumentRecord.__init__\<close>, with the time of the call and the class counter as
      arguments; it returns the record and the counter\<close>
  "DocumentRecord tm counter sndr subj dest dt rid auto_date st =
     (case (case rid of
              None \<Rightarrow> generate_id counter
            | Some i \<Rightarrow> if i \<noteq> [] then Some (i, counter) else generate_id counter) of
        None \<Rightarrow> None
      | Some ic \<Rightarrow>
          Some (\<lparr>record_id = fst ic,
                  date = (case dt of
                            None \<Rightarrow> if auto_date then tm else ''No Date''
                          | Some d \<Rightarrow>
                              if d \<noteq> [] then d
                              else if auto_date then tm else ''No Date''),
                  sender = sndr, subject = subj, destination = dest,
                  status = (if st \<in> set [''Done'', ''Completed''] then ''Completed''
                            else ''Pending'')\<rparr>,
                snd ic))"

record record_data =
  d_id :: "string option"
  d_date :: "string option"
  d_sender :: "string option"
  d_subject :: "string option"
  d_destination :: "string option"
  d_status :: "string option"

definition to_dict :: "document_record \<Rightarrow> record_data" where
  "to_dict r =
     \<lparr>d_id = Some (record_id r), d_date = Some (date r), d_sender = Some (sender r),
      d_subject = Some (subject r), d_destination = Some (destination r),
      d_status = Some (status r)\<rparr>"

definition from_dict ::
  "string \<Rightarrow> int option \<Rightarrow> record_data \<Rightarrow> (document_record \<times> int option) option" where
  \<comment> \<open>\<open>DocumentRecord.from_dict\<close>; \<open>None\<close> is the \<open>KeyError\<close> of a key that is absent, or the
      error of the constructor\<close>
  "from_dict tm counter d =
     (case (d_sender d, d_subject d, d_destination d, d_date d, d_id d) of
        (Some sndr, Some subj, Some dest, Some dt, Some rid) \<Rightarrow>
          DocumentRecord tm counter sndr subj dest (Some dt) (Some rid) True
            (case d_status d of None \<Rightarrow> ''Pending'' | Some st \<Rightarrow> st)
      | _ \<Rightarrow> None)"

section \<open>The record store\<close>

text \<open>
  The state of a \<open>RecordKeeper\<close>: the list it holds in memory, the class attribute
  \<open>DocumentRecord._id_counter\<close> (\<open>None\<close> until a keeper sets it), and the two files. The
  record file holds the list of dictionaries last written (\<open>None\<close>: no file). The counter
  file holds the integer last written (\<open>None\<close>: no file, or a text that is not an integer;
  reading either gives 0). Writing a file is taken to succeed.
\<close>

record keeper =
  records :: "document_record list"
  id_counter :: "int option"
  data_file :: "record_data list option"
  counter_file :: "int option"

definition save_records :: "keeper \<Rightarrow> keeper" where
  "save_records k = k\<lparr>data_file := Some (map to_dict (records k))\<rparr>"

definition save_counter :: "keeper \<Rightarrow> keeper" where
  \<comment> \<open>\<open>_save_counter\<close> writes \<open>str\<close> of the counter; the text \<open>None\<close> is not an integer\<close>
  "save_counter k = k\<lparr>counter_file := id_counter k\<rparr>"

definition load_counter :: "keeper \<Rightarrow> keeper" where
  "load_counter k =
     k\<lparr>id_counter := Some (case counter_file k of None \<Rightarrow> 0 | Some n \<Rightarrow> n)\<rparr>"

definition add_record ::
  "env \<Rightarrow> string \<Rightarrow> string \<Rightarrow> string \<Rightarrow> string option \<Rightarrow> keeper
     \<Rightarrow> (keeper \<times> document_record) option" where
  \<comment> \<open>\<open>RecordKeeper.add_record\<close>; \<open>None\<close> when the constructor raises\<close>
  "add_record e sndr subj dest dt k =
     (case DocumentRecord (now e) (id_counter k) sndr subj dest dt None True ''Pending'' of
        None \<Rightarrow> None
      | Some rc \<Rightarrow>
          Some (save_counter
                  (save_records (k\<lparr>records := records k @ [fst rc], id_counter := snd rc\<rparr>)),
                fst rc))"

definition field_matches :: "string \<Rightarrow> document_record \<Rightarrow> bool" where
  \<comment> \<open>the condition of the search loop, for a query already in lower case\<close>
  "field_matches q r =
     (py_in q (lower (record_id r)) \<or> py_in q (lower (date r)) \<or> py_in q (lower (sender r))
      \<or> py_in q (lower (subject r)) \<or> py_in q (lower (destination r)))"

definition search_records :: "string \<Rightarrow> keeper \<Rightarrow> document_record list" where
  "search_records query k =
     (if query = [] then records k else filter (field_matches (lower query)) (records k))"

fun delete_first :: "string \<Rightarrow> document_record list \<Rightarrow> document_record list option" where
  \<comment> \<open>the list without the first record of that id; \<open>None\<close> when no record has it\<close>
  "delete_first i [] = None"
| "delete_first i (r # rs) =
     (if record_id r = i then Some rs else map_option ((#) r) (delete_first i rs))"

definition delete_record :: "string \<Rightarrow> keeper \<Rightarrow> keeper \<times> bool" where
  "delete_record i k =
     (case delete_first i (records k) of
        None \<Rightarrow> (k, False)
      | Some rs \<Rightarrow>
          (if rs = [] then save_counter ((save_records (k\<lparr>records := rs\<rparr>))\<lparr>id_counter := Some 0\<rparr>)
           else save_records (k\<lparr>records := rs\<rparr>),
           True))"

record kwargs =
  kw_sender :: "string option"
  kw_subject :: "string option"
  kw_destination :: "string option"
  kw_date :: "string option"
  kw_status :: "string option"

definition apply_kwargs :: "kwargs \<Rightarrow> document_record \<Rightarrow> document_record" where
  \<comment> \<open>the assignments of \<open>edit_record\<close>: each key that is given replaces its field\<close>
  "apply_kwargs kw r =
     r\<lparr>sender := (case kw_sender kw of None \<Rightarrow> sender r | Some v \<Rightarrow> v),
       subject := (case kw_subject kw of None \<Rightarrow> subject r | Some v \<Rightarrow> v),
       destination := (case kw_destination kw of None \<Rightarrow> destination r | Some v \<Rightarrow> v),
       date := (case kw_date kw of None \<Rightarrow> date r | Some v \<Rightarrow> v),
       status := (case kw_status kw of None \<Rightarrow> status r | Some v \<Rightarrow> v)\<rparr>"

fun edit_first :: "string \<Rightarrow> kwargs \<Rightarrow> document_record list \<Rightarrow> document_record list option" where
  "edit_first i kw [] = None"
| "edit_first i kw (r # rs) =
     (if record_id r = i then Some (apply_kwargs kw r # rs)
      else map_option ((#) r) (edit_first i kw rs))"

definition edit_record :: "string \<Rightarrow> kwargs \<Rightarrow> keeper \<Rightarrow> keeper \<times> bool" where
  "edit_record i kw k =
     (case edit_first i kw (records k) of
        None \<Rightarrow> (k, False)
      | Some rs \<Rightarrow> (save_records (k\<lparr>records := rs\<rparr>), True))"

definition no_kwargs :: kwargs where
  "no_kwargs = \<lparr>kw_sender = None, kw_subject = None, kw_destination = None, kw_date = None,
                kw_status = None\<rparr>"

definition mark_as_completed :: "string \<Rightarrow> keeper \<Rightarrow> keeper \<times> bool" where
  "mark_as_completed i k = edit_record i (no_kwargs\<lparr>kw_status := Some ''Completed''\<rparr>) k"

definition mark_as_pending :: "string \<Rightarrow> keeper \<Rightarrow> keeper \<times> bool" where
  "mark_as_pending i k = edit_record i (no_kwargs\<lparr>kw_status := Some ''Pending''\<rparr>) k"

definition reset_all_data :: "keeper \<Rightarrow> keeper \<times> bool" where
  "reset_all_data k =
     (save_counter ((save_records (k\<lparr>records := []\<rparr>))\<lparr>id_counter := Some 0\<rparr>), True)"

record statistics =
  total_records :: nat
  unique_senders :: nat
  unique_destinations :: nat
  pending_count :: nat
  completed_count :: nat
  senders :: "string list"
  destinations :: "string list"

definition get_statistics :: "keeper \<Rightarrow> statistics" where
  \<comment> \<open>\<open>RecordKeeper.get_statistics\<close>. A Python \<open>set\<close> is a list without duplicates here; the
      order in which \<open>list(set)\<close> gives its elements is not fixed by the language.\<close>
  "get_statistics k =
     (if records k = [] then
        \<lparr>total_records = 0, unique_senders = 0, unique_destinations = 0, pending_count = 0,
         completed_count = 0, senders = [], destinations = []\<rparr>
      else
        \<lparr>total_records = length (records k),
         unique_senders = length (remdups (filter (\<lambda>s. s \<noteq> []) (map sender (records k)))),
         unique_destinations =
           length (remdups (filter (\<lambda>s. s \<noteq> []) (map destination (records k)))),
         pending_count = length (filter (\<lambda>r. status r = ''Pending'') (records k)),
         completed_count = length (filter (\<lambda>r. status r = ''Completed'') (records k)),
         senders = remdups (filter (\<lambda>s. s \<noteq> []) (map sender (records k))),
         destinations = remdups (filter (\<lambda>s. s \<noteq> []) (map destination (records k)))\<rparr>)"

subsection \<open>Loading\<close>

definition update_date :: "env \<Rightarrow> document_record \<Rightarrow> document_record" where
  \<comment> \<open>the body of the loop of \<open>_update_existing_dates_to_iso\<close>\<close>
  "update_date e r =
     (if date r \<noteq> [] \<and> date r \<noteq> ''No Date'' then
        (if is_readable_format (date r) then
           (case convert_readable_to_iso e (date r) of
              None \<Rightarrow> r
            | Some new_date \<Rightarrow> if new_date \<noteq> [] \<and> new_date \<noteq> date r then r\<lparr>date := new_date\<rparr> else r)
         else if needs_date_format_update (date r) then
           (case parse_and_format_date e (date r) of
              None \<Rightarrow> r
            | Some new_date \<Rightarrow> if new_date \<noteq> [] \<and> new_date \<noteq> date r then r\<lparr>date := new_date\<rparr> else r)
         else r)
      else r)"

definition update_existing_dates_to_iso :: "env \<Rightarrow> keeper \<Rightarrow> keeper" where
  \<comment> \<open>the count of updated records is positive exactly when a record changed\<close>
  "update_existing_dates_to_iso e k =
     (if map (update_date e) (records k) \<noteq> records k
      then save_records (k\<lparr>records := map (update_date e) (records k)\<rparr>)
      else k)"

definition id_number :: "string \<Rightarrow> int option" where
  \<comment> \<open>the number \<open>_initialize_counter_from_records\<close> reads from an id; \<open>None\<close> when the id
      does not split in two at \<open>' - '\<close> or \<open>int\<close> raises\<close>
  "id_number i = (case py_split '' - '' [] i of [a, b] \<Rightarrow> py_int b | _ \<Rightarrow> None)"

definition max_counter :: "document_record list \<Rightarrow> int" where
  "max_counter rs =
     foldl (\<lambda>m r. case id_number (record_id r) of None \<Rightarrow> m | Some n \<Rightarrow> max m n) 0 rs"

definition initialize_counter_from_records :: "keeper \<Rightarrow> keeper" where
  "initialize_counter_from_records k =
     (if records k = [] then k
      else save_counter
             (k\<lparr>id_counter :=
                  (case id_counter k of
                     None \<Rightarrow> Some (max_counter (records k))
                   | Some c \<Rightarrow>
                       if max_counter (records k) > c then Some (max_counter (records k))
                       else Some c)\<rparr>))"

fun from_dicts ::
  "string \<Rightarrow> int option \<Rightarrow> record_data list \<Rightarrow> document_record list option \<times> int option" where
  \<comment> \<open>the list comprehension of \<open>load_records\<close>: the records (\<open>None\<close> when one of the
      dictionaries raises) and the class counter it leaves\<close>
  "from_dicts tm c [] = (Some [], c)"
| "from_dicts tm c (d # ds) =
     (case from_dict tm c d of
        None \<Rightarrow> (None, c)
      | Some rc \<Rightarrow>
          (case from_dicts tm (snd rc) ds of
             (None, c') \<Rightarrow> (None, c')
           | (Some rs, c') \<Rightarrow> (Some (fst rc # rs), c')))"

definition load_records :: "env \<Rightarrow> keeper \<Rightarrow> keeper" where
  "load_records e k =
     (case data_file k of
        None \<Rightarrow> k
      | Some data \<Rightarrow>
          (case from_dicts (now e) (id_counter k) data of
             (None, c) \<Rightarrow> k\<lparr>records := [], id_counter := c\<rparr>
           | (Some rs, c) \<Rightarrow>
               initialize_counter_from_records
                 (update_existing_dates_to_iso e (k\<lparr>records := rs, id_counter := c\<rparr>))))"

definition RecordKeeper ::
  "env \<Rightarrow> int option \<Rightarrow> record_data list option \<Rightarrow> int option \<Rightarrow> keeper" where
  \<comment> \<open>\<open>RecordKeeper.__init__\<close> in a process whose class counter is the second argument
      (\<open>None\<close> in a fresh process), on the contents of the two files\<close>
  "RecordKeeper e cls_counter records_json counter_txt =
     load_counter
       (load_records e
          \<lparr>records = [], id_counter = cls_counter, data_file = records_json,
           counter_file = counter_txt\<rparr>)"

section \<open>Tabular import and backup restore\<close>

text \<open>
  The sheet the external reader returns: the column names in order, and one row per line
  of the sheet. A cell is either empty (\<open>pd.notna\<close> is false) or holds a value, given by
  the text \<open>str\<close> makes of it. A row gives the cell of a column name; reading a name the
  row does not have is the \<open>KeyError\<close> of \<open>row[col]\<close>. Under a name that two columns
  share, \<open>row[col]\<close> is a series of cells, and the test of the source on it raises.
\<close>

datatype cell = NaN | Val string

record sheet =
  columns :: "string list"
  sheet_rows :: "(string \<times> cell) list list"

definition normalized_columns :: "string list \<Rightarrow> string \<Rightarrow> string option" where
  \<comment> \<open>the dictionary \<open>{col.lower().strip(): col for col in df.columns}\<close>: of two columns
      with the same key the later one stays\<close>
  "normalized_columns cols = map_of (rev (map (\<lambda>col. (strip (lower col), col)) cols))"

definition destination_column :: "string list \<Rightarrow> string option" where
  "destination_column cols =
     (case normalized_columns cols ''destination'' of
        Some c \<Rightarrow> Some c
      | None \<Rightarrow> normalized_columns cols ''to'')"

definition row_cell :: "string list \<Rightarrow> (string \<times> cell) list \<Rightarrow> string \<Rightarrow> cell option" where
  \<comment> \<open>the cell that the test \<open>pd.notna(row[col])\<close> reads; \<open>None\<close>: the test raises\<close>
  "row_cell cols row c = (if 1 < count_list cols c then None else map_of row c)"

definition cell_text ::
  "string list \<Rightarrow> string option \<Rightarrow> (string \<times> cell) list \<Rightarrow> string option" where
  \<comment> \<open>\<open>str(row[col]).strip() if col and pd.notna(row[col]) else ""\<close>; the result \<open>None\<close> is
      the exception\<close>
  "cell_text cols col row =
     (case col of
        None \<Rightarrow> Some []
      | Some c \<Rightarrow>
          (case row_cell cols row c of
             None \<Rightarrow> None
           | Some NaN \<Rightarrow> Some []
           | Some (Val v) \<Rightarrow> Some (strip v)))"

record batch =
  b_records :: "document_record list"
  b_counter :: "int option"
  imported_count :: nat
  error_count :: nat

definition row_error :: "batch \<Rightarrow> batch" where
  \<comment> \<open>the \<open>except\<close> branch of the loop body\<close>
  "row_error b = b\<lparr>error_count := error_count b + 1\<rparr>"

definition row_added :: "batch \<Rightarrow> document_record \<times> int option \<Rightarrow> batch" where
  "row_added b rc =
     b\<lparr>b_records := b_records b @ [fst rc], b_counter := snd rc,
       imported_count := imported_count b + 1\<rparr>"

definition import_row :: "env \<Rightarrow> string list \<Rightarrow> batch \<Rightarrow> (string \<times> cell) list \<Rightarrow> batch" where
  \<comment> \<open>one turn of the loop of \<open>import_from_excel\<close>, in the order of the source: sender,
      subject, destination, the test of the required fields, date, the constructor\<close>
  "import_row e cols b row =
     (case cell_text cols (normalized_columns cols ''sender'') row of
        None \<Rightarrow> row_error b
      | Some sndr \<Rightarrow>
     (case cell_text cols (normalized_columns cols ''subject'') row of
        None \<Rightarrow> row_error b
      | Some subj \<Rightarrow>
     (case cell_text cols (destination_column cols) row of
        None \<Rightarrow> row_error b
      | Some dest \<Rightarrow>
          if sndr = [] \<or> subj = [] then b
          else
     (case cell_text cols (normalized_columns cols ''date'') row of
        None \<Rightarrow> row_error b
      | Some raw_date \<Rightarrow>
     (case DocumentRecord (now e) (b_counter b) sndr subj dest
             (if raw_date \<noteq> [] then parse_and_format_date e raw_date else None)
             None False ''Pending'' of
        None \<Rightarrow> row_error b
      | Some rc \<Rightarrow> row_added b rc)))))"

definition import_rows :: "env \<Rightarrow> string list \<Rightarrow> batch \<Rightarrow> (string \<times> cell) list list \<Rightarrow> batch" where
  "import_rows e cols b rows = foldl (import_row e cols) b rows"

definition start_batch :: "bool \<Rightarrow> keeper \<Rightarrow> keeper" where
  \<comment> \<open>before the loop: in replace mode the list is emptied and the counter reset and
      written\<close>
  "start_batch replace_existing k =
     (if replace_existing then save_counter (k\<lparr>records := [], id_counter := Some 0\<rparr>) else k)"

definition finish_batch :: "bool \<Rightarrow> document_record list \<Rightarrow> keeper \<Rightarrow> batch \<Rightarrow> keeper \<times> bool" where
  \<comment> \<open>after the loop: the records are written when one was taken; otherwise an additive
      call puts the list it started with back\<close>
  "finish_batch replace_existing original_records k b =
     (if imported_count b > 0
      then (save_records (k\<lparr>records := b_records b, id_counter := b_counter b\<rparr>), True)
      else (k\<lparr>records := (if replace_existing then b_records b else original_records),
              id_counter := b_counter b\<rparr>, False))"

definition new_batch :: "keeper \<Rightarrow> batch" where
  "new_batch k =
     \<lparr>b_records = records k, b_counter = id_counter k, imported_count = 0, error_count = 0\<rparr>"

definition import_from_excel :: "env \<Rightarrow> sheet option \<Rightarrow> bool \<Rightarrow> keeper \<Rightarrow> keeper \<times> bool" where
  \<comment> \<open>\<open>RecordKeeper.import_from_excel\<close> on what the reader returns; \<open>None\<close>: the library is
      absent, there is no such file, or reading it raises\<close>
  "import_from_excel e src replace_existing k =
     (case src of
        None \<Rightarrow> (k, False)
      | Some df \<Rightarrow>
          if normalized_columns (columns df) ''sender'' = None
             \<or> normalized_columns (columns df) ''subject'' = None
          then (k, False)
          else finish_batch replace_existing (records k) (start_batch replace_existing k)
                 (import_rows e (columns df) (new_batch (start_batch replace_existing k))
                    (sheet_rows df)))"

record backup =
  has_backup_info :: bool
  backup_records :: "record_data list option"

definition restore_row :: "env \<Rightarrow> batch \<Rightarrow> record_data \<Rightarrow> batch" where
  \<comment> \<open>one turn of the loop of \<open>restore_from_backup\<close>; \<open>get\<close> gives the default of a key
      that is absent\<close>
  "restore_row e b d =
     (if (case d_sender d of None \<Rightarrow> [] | Some v \<Rightarrow> v) = []
         \<or> (case d_subject d of None \<Rightarrow> [] | Some v \<Rightarrow> v) = []
      then b
      else
        (case DocumentRecord (now e) (b_counter b)
                (case d_sender d of None \<Rightarrow> [] | Some v \<Rightarrow> v)
                (case d_subject d of None \<Rightarrow> [] | Some v \<Rightarrow> v)
                (case d_destination d of None \<Rightarrow> [] | Some v \<Rightarrow> v)
                (d_date d) None False
                (case d_status d of None \<Rightarrow> ''Pending'' | Some v \<Rightarrow> v) of
           None \<Rightarrow> row_error b
         | Some rc \<Rightarrow> row_added b rc))"

definition restore_from_backup :: "env \<Rightarrow> backup option \<Rightarrow> bool \<Rightarrow> keeper \<Rightarrow> keeper \<times> bool" where
  \<comment> \<open>\<open>RecordKeeper.restore_from_backup\<close> on the parsed file; \<open>None\<close>: no such file, or
      reading it raises\<close>
  "restore_from_backup e src replace_existing k =
     (case src of
        None \<Rightarrow> (k, False)
      | Some backup_data \<Rightarrow>
          (case backup_records backup_data of
             None \<Rightarrow> (k, False)
           | Some records_data \<Rightarrow>
               if \<not> has_backup_info backup_data then (k, False)
               else finish_batch replace_existing (records k) (start_batch replace_existing k)
                      (foldl (restore_row e) (new_batch (start_batch replace_existing k))
                         records_data)))"

section \<open>Notions of the specification, and example data\<close>

definition is_substring :: "string \<Rightarrow> string \<Rightarrow> bool" where
  \<comment> \<open>\<open>q\<close> is a substring of \<open>s\<close>\<close>
  "is_substring q s = (\<exists>pre suf. s = pre @ q @ suf)"

definition example_env :: env where
  \<comment> \<open>a clock reading, and a run in which the generic date parser parses nothing\<close>
  "example_env =
     \<lparr>now = ''2025-03-01 10:00:00'', pd_to_datetime = (\<lambda>s. None), pads_year = False\<rparr>"

definition keeper_of :: "document_record list \<Rightarrow> int \<Rightarrow> keeper" where
  \<comment> \<open>a keeper holding the given records and counter, both files written\<close>
  "keeper_of rs c =
     \<lparr>records = rs, id_counter = Some c, data_file = Some (map to_dict rs),
      counter_file = Some c\<rparr>"

definition nino :: string where
  \<comment> \<open>a name with the small n with tilde, U+00F1\<close>
  "nino = [CHR ''N'', CHR ''i'', CHR 0xF1, CHR ''o'']"

definition alice_record :: document_record where
  "alice_record =
     \<lparr>record_id = ''MAYOR'S OFFICE - 001'', date = ''2025-01-07'', sender = ''Alice'',
      subject = ''Budget'', destination = ''Finance'', status = ''Pending''\<rparr>"

definition blank_destination_records :: "document_record list" where
  "blank_destination_records =
     [\<lparr>record_id = ''MAYOR'S OFFICE - 001'', date = ''2025-01-07'', sender = ''Alice'',
       subject = ''Budget'', destination = [], status = ''Pending''\<rparr>,
      \<lparr>record_id = ''MAYOR'S OFFICE - 002'', date = ''No Date'', sender = ''Bob'',
       subject = ''Report'', destination = [], status = ''Completed''\<rparr>]"

datatype outcome = Imported | Skipped | Errored

definition row_outcome :: "string list \<Rightarrow> (string \<times> cell) list \<Rightarrow> outcome" where
  \<comment> \<open>what the import does with a row of a sheet of the given columns: reading a cell
      raises; or else the sender or the subject is missing or empty; or else the row is
      taken\<close>
  "row_outcome cols row =
     (if cell_text cols (normalized_columns cols ''sender'') row = None
         \<or> cell_text cols (normalized_columns cols ''subject'') row = None
         \<or> cell_text cols (destination_column cols) row = None
      then Errored
      else if cell_text cols (normalized_columns cols ''sender'') row = Some []
              \<or> cell_text cols (normalized_columns cols ''subject'') row = Some []
      then Skipped
      else if cell_text cols (normalized_columns cols ''date'') row = None then Errored
      else Imported)"

definition row_text :: "string list \<Rightarrow> string \<Rightarrow> (string \<times> cell) list \<Rightarrow> string" where
  \<comment> \<open>the text of the cell of a row under a column key; empty when there is none\<close>
  "row_text cols key row =
     (case cell_text cols (normalized_columns cols key) row of None \<Rightarrow> [] | Some t \<Rightarrow> t)"

definition imported_rows :: "sheet \<Rightarrow> (string \<times> cell) list list" where
  \<comment> \<open>the rows of a sheet that end up valid\<close>
  "imported_rows df = filter (\<lambda>row. row_outcome (columns df) row = Imported) (sheet_rows df)"

definition three_rows :: sheet where
  \<comment> \<open>three rows, the second with an empty subject\<close>
  "three_rows =
     \<lparr>columns = [''Sender'', ''Subject'', ''To''],
      sheet_rows =
        [[(''Sender'', Val ''Ana''), (''Subject'', Val ''Invoice''), (''To'', Val ''Finance'')],
         [(''Sender'', Val ''Ben''), (''Subject'', Val ''''), (''To'', Val ''Ops'')],
         [(''Sender'', Val ''Cy''), (''Subject'', Val ''Memo''), (''To'', NaN)]]\<rparr>"

definition invalid_rows :: sheet where
  \<comment> \<open>three rows, none with both a sender and a subject; the subject of the last is a
      no-break space\<close>
  "invalid_rows =
     \<lparr>columns = [''sender'', ''subject''],
      sheet_rows =
        [[(''sender'', NaN), (''subject'', Val ''Invoice'')],
         [(''sender'', Val ''Ben''), (''subject'', Val ''  '')],
         [(''sender'', Val ''Cy''), (''subject'', Val [CHR 0xA0])]]\<rparr>"

definition ragged_rows :: sheet where
  \<comment> \<open>two rows, the first without a cell for the subject column\<close>
  "ragged_rows =
     \<lparr>columns = [''Sender'', ''Subject''],
      sheet_rows =
        [[(''Sender'', Val ''Dee'')],
         [(''Sender'', Val ''Eve''), (''Subject'', Val ''Note'')]]\<rparr>"

definition example_backup :: backup where
  \<comment> \<open>a backup archive of one record\<close>
  "example_backup =
     \<lparr>has_backup_info = True, backup_records = Some [to_dict alice_record]\<rparr>"

definition well_formed :: "record_data \<Rightarrow> bool" where
  \<comment> \<open>a dictionary as \<open>to_dict\<close> writes it: every key that \<open>from_dict\<close> reads is there, and the
      id is not empty\<close>
  "well_formed d =
     (d_sender d \<noteq> None \<and> d_subject d \<noteq> None \<and> d_destination d \<noteq> None \<and> d_date d \<noteq> None
      \<and> d_id d \<noteq> None \<and> d_id d \<noteq> Some [])"

definition stored_id :: "record_data \<Rightarrow> string" where
  "stored_id d = (case d_id d of None \<Rightarrow> [] | Some i \<Rightarrow> i)"

definition max_id_number :: "string list \<Rightarrow> int" where
  \<comment> \<open>the highest number among the ids that carry one, and 0 when none does\<close>
  "max_id_number ids =
     foldl (\<lambda>m i. case id_number i of None \<Rightarrow> m | Some n \<Rightarrow> max m n) 0 ids"

definition record_numbered :: "string \<Rightarrow> record_data" where
  \<comment> \<open>a stored record of the given id\<close>
  "record_numbered i = to_dict (alice_record\<lparr>record_id := i\<rparr>)"

section \<open>Properties of the search\<close>

lemma startswith_iff: "startswith s p \<longleftrightarrow> (\<exists>suf. s = p @ suf)"
  by (induction s p rule: startswith.induct) auto

lemma py_in_iff: "py_in q s \<longleftrightarrow> (\<exists>pre suf. s = pre @ q @ suf)"
proof (induction s)
  case Nil
  then show ?case by auto
next
  case (Cons c cs)
  show ?case
  proof
    assume "py_in q (c # cs)"
    then consider "startswith (c # cs) q" | "py_in q cs" by auto
    then show "\<exists>pre suf. c # cs = pre @ q @ suf"
    proof cases
      case 1
      then obtain suf where "c # cs = q @ suf" by (auto simp: startswith_iff)
      then have "c # cs = [] @ q @ suf" by simp
      then show ?thesis by blast
    next
      case 2
      then obtain pre suf where "cs = pre @ q @ suf" using Cons.IH by auto
      then have "c # cs = (c # pre) @ q @ suf" by simp
      then show ?thesis by blast
    qed
  next
    assume "\<exists>pre suf. c # cs = pre @ q @ suf"
    then obtain pre suf where eq: "c # cs = pre @ q @ suf" by auto
    show "py_in q (c # cs)"
    proof (cases pre)
      case Nil
      with eq have "startswith (c # cs) q" by (auto simp: startswith_iff)
      then show ?thesis by simp
    next
      case (Cons a pre')
      with eq have "cs = pre' @ q @ suf" by simp
      then have "py_in q cs" using Cons.IH by auto
      then show ?thesis by simp
    qed
  qed
qed

text \<open>
  Claim C9. For every query and collection, the search returns exactly the records in
  which the query, in lower case, is a substring of the id, the date, the sender, the
  subject or the destination in lower case; the records come in the order of the
  collection (the result is the collection filtered), and the empty query, a substring
  of every text, returns them all.
\<close>

theorem search_records_substring_or:
  "search_records query k =
     filter (\<lambda>r. is_substring (lower query) (lower (record_id r))
                \<or> is_substring (lower query) (lower (date r))
                \<or> is_substring (lower query) (lower (sender r))
                \<or> is_substring (lower query) (lower (subject r))
                \<or> is_substring (lower query) (lower (destination r)))
            (records k)"
proof (cases "query = []")
  case True
  have "s = [] @ [] @ s" for s :: string by simp
  then have "is_substring (lower query) s" for s
    unfolding is_substring_def lower_def True by (metis list.map(1))
  then show ?thesis using True by (simp add: search_records_def)
next
  case False
  have "field_matches (lower query) =
          (\<lambda>r. is_substring (lower query) (lower (record_id r))
                \<or> is_substring (lower query) (lower (date r))
                \<or> is_substring (lower query) (lower (sender r))
                \<or> is_substring (lower query) (lower (subject r))
                \<or> is_substring (lower query) (lower (destination r)))"
    by (rule ext) (simp add: field_matches_def py_in_iff is_substring_def)
  with False show ?thesis by (simp add: search_records_def)
qed

text \<open>
  The example of the claim: a record of sender Alice and subject Budget is found by
  \<open>alice\<close>, \<open>BUDGET\<close> and \<open>alic\<close>, not by \<open>xyz\<close>.
\<close>

theorem search_records_substring_or_witness:
  "filter (\<lambda>r. is_substring (lower ''BUDGET'') (lower (record_id r))
                \<or> is_substring (lower ''BUDGET'') (lower (date r))
                \<or> is_substring (lower ''BUDGET'') (lower (sender r))
                \<or> is_substring (lower ''BUDGET'') (lower (subject r))
                \<or> is_substring (lower ''BUDGET'') (lower (destination r)))
            (records (keeper_of [alice_record] 1)) = [alice_record]
   \<and> search_records ''alice'' (keeper_of [alice_record] 1) = [alice_record]
   \<and> search_records ''alic'' (keeper_of [alice_record] 1) = [alice_record]
   \<and> search_records ''xyz'' (keeper_of [alice_record] 1) = []
   \<and> search_records [] (keeper_of [alice_record] 1) = [alice_record]
   \<and> search_records [CHR ''N'', CHR ''I'', CHR 0xD1, CHR ''O'']
         (keeper_of [alice_record\<lparr>sender := nino\<rparr>] 1)
       = [alice_record\<lparr>sender := nino\<rparr>]"
proof -
  have a: "search_records ''BUDGET'' (keeper_of [alice_record] 1) = [alice_record]"
    by code_simp
  have b: "search_records ''alice'' (keeper_of [alice_record] 1) = [alice_record]"
    by code_simp
  have c: "search_records ''alic'' (keeper_of [alice_record] 1) = [alice_record]"
    by code_simp
  have d: "search_records ''xyz'' (keeper_of [alice_record] 1) = []"
    by code_simp
  have e: "search_records [] (keeper_of [alice_record] 1) = [alice_record]"
    by code_simp
  have f: "search_records [CHR ''N'', CHR ''I'', CHR 0xD1, CHR ''O'']
             (keeper_of [alice_record\<lparr>sender := nino\<rparr>] 1)
           = [alice_record\<lparr>sender := nino\<rparr>]"
    by code_simp
  from a b c d e f show ?thesis
    using search_records_substring_or [of "''BUDGET''" "keeper_of [alice_record] 1"]
    by simp
qed


section \<open>Properties of the statistics\<close>

lemma set_nonempty_values:
  "set (remdups (filter (\<lambda>s. s \<noteq> []) (map f rs))) = f ` set rs - {[]}"
  by auto

lemma count_nonempty_values:
  "length (remdups (filter (\<lambda>s. s \<noteq> []) (map f rs))) = card (f ` set rs - {[]})"
proof -
  have "set (filter (\<lambda>s. s \<noteq> []) (map f rs)) = f ` set rs - {[]}" by auto
  then show ?thesis by (simp only: length_remdups_card_conv)
qed

text \<open>
  Claim C10. The statistics count every record in the total and in the two status
  counts, whatever its destination or sender; the lists of senders and of destinations
  hold exactly the values that are not the empty string, and the two unique counts are
  the sizes of these sets. So when every record has the empty destination, the count of
  unique destinations is 0 and the list of destinations is empty.
\<close>

theorem get_statistics_nonempty_values:
  "total_records (get_statistics k) = length (records k)
   \<and> pending_count (get_statistics k) = length (filter (\<lambda>r. status r = ''Pending'') (records k))
   \<and> completed_count (get_statistics k)
       = length (filter (\<lambda>r. status r = ''Completed'') (records k))
   \<and> set (senders (get_statistics k)) = sender ` set (records k) - {[]}
   \<and> set (destinations (get_statistics k)) = destination ` set (records k) - {[]}
   \<and> unique_senders (get_statistics k) = card (sender ` set (records k) - {[]})
   \<and> unique_destinations (get_statistics k) = card (destination ` set (records k) - {[]})
   \<and> ((\<forall>r \<in> set (records k). destination r = []) \<longrightarrow>
         unique_destinations (get_statistics k) = 0 \<and> destinations (get_statistics k) = [])"
proof (cases "records k = []")
  case True
  then show ?thesis by (simp add: get_statistics_def)
next
  case False
  have "filter (\<lambda>s. s \<noteq> []) (map destination (records k)) = []"
    if "\<forall>r \<in> set (records k). destination r = []"
    using that by (induction "records k") (auto simp: filter_empty_conv)
  with False show ?thesis
    by (simp add: get_statistics_def count_nonempty_values set_nonempty_values
      del: set_remdups set_filter set_map)
qed

theorem get_statistics_nonempty_values_witness:
  "map destination (records (keeper_of blank_destination_records 2)) = [[], []]
   \<and> total_records (get_statistics (keeper_of blank_destination_records 2)) = 2
   \<and> pending_count (get_statistics (keeper_of blank_destination_records 2)) = 1
   \<and> completed_count (get_statistics (keeper_of blank_destination_records 2)) = 1
   \<and> unique_senders (get_statistics (keeper_of blank_destination_records 2)) = 2
   \<and> unique_destinations (get_statistics (keeper_of blank_destination_records 2)) = 0
   \<and> destinations (get_statistics (keeper_of blank_destination_records 2)) = []"
proof -
  have h: "\<forall>r \<in> set (records (keeper_of blank_destination_records 2)). destination r = []"
    by (simp add: keeper_of_def blank_destination_records_def)
  have t: "total_records (get_statistics (keeper_of blank_destination_records 2)) = 2"
    by code_simp
  have p: "pending_count (get_statistics (keeper_of blank_destination_records 2)) = 1"
    by code_simp
  have c: "completed_count (get_statistics (keeper_of blank_destination_records 2)) = 1"
    by code_simp
  have s: "unique_senders (get_statistics (keeper_of blank_destination_records 2)) = 2"
    by code_simp
  have d: "map destination (records (keeper_of blank_destination_records 2)) = [[], []]"
    by (simp add: keeper_of_def blank_destination_records_def)
  from h t p c s d show ?thesis
    using get_statistics_nonempty_values [of "keeper_of blank_destination_records 2"]
    by blast
qed

section \<open>Properties of add, edit and delete\<close>

lemma delete_first_None_iff: "delete_first i rs = None \<longleftrightarrow> i \<notin> record_id ` set rs"
  by (induction rs) auto

lemma delete_first_length: "delete_first i rs = Some rs' \<Longrightarrow> length rs = Suc (length rs')"
  by (induction rs arbitrary: rs') (auto split: if_splits)

lemma format_03d_1: "format_03d 1 = ''001''"
  by code_simp

lemma add_record_id:
  "id_counter k = Some c \<Longrightarrow>
   map_option (record_id \<circ> snd) (add_record e sndr subj dest dt k)
     = Some (''MAYOR'S OFFICE - '' @ format_03d (c + 1))"
  by (simp add: add_record_def DocumentRecord_def generate_id_def)

text \<open>
  Claim C7. When the store holds exactly one record, deleting it succeeds, empties the
  collection and the record file, and sets the counter and the counter file to 0, so
  that the next add, whatever its arguments, gives the id of number 001. Deleting a
  record of a store that holds two records or more removes one record and leaves the
  counter and the counter file as they were.
\<close>

theorem delete_record_counter_reset:
  "(records k = [r] \<longrightarrow>
      snd (delete_record (record_id r) k)
      \<and> records (fst (delete_record (record_id r) k)) = []
      \<and> data_file (fst (delete_record (record_id r) k)) = Some []
      \<and> id_counter (fst (delete_record (record_id r) k)) = Some 0
      \<and> counter_file (fst (delete_record (record_id r) k)) = Some 0
      \<and> map_option (record_id \<circ> snd)
           (add_record e sndr subj dest dt (fst (delete_record (record_id r) k)))
          = Some ''MAYOR'S OFFICE - 001'')
   \<and> (i \<in> record_id ` set (records k) \<and> 2 \<le> length (records k) \<longrightarrow>
        snd (delete_record i k)
        \<and> Suc (length (records (fst (delete_record i k)))) = length (records k)
        \<and> id_counter (fst (delete_record i k)) = id_counter k
        \<and> counter_file (fst (delete_record i k)) = counter_file k)"
proof (intro conjI impI)
  assume one: "records k = [r]"
  let ?k = "fst (delete_record (record_id r) k)"
  show "snd (delete_record (record_id r) k)" "records ?k = []" "data_file ?k = Some []"
    and c: "id_counter ?k = Some 0" and "counter_file ?k = Some 0"
    using one by (simp_all add: delete_record_def save_records_def save_counter_def)
  show "map_option (record_id \<circ> snd) (add_record e sndr subj dest dt ?k)
          = Some ''MAYOR'S OFFICE - 001''"
    using add_record_id [OF c] by (simp add: format_03d_1)
next
  assume h: "i \<in> record_id ` set (records k) \<and> 2 \<le> length (records k)"
  then obtain rs where rs: "delete_first i (records k) = Some rs"
    using delete_first_None_iff [of i "records k"] by (cases "delete_first i (records k)") auto
  from delete_first_length [OF rs] h have ne: "rs \<noteq> []" and len: "Suc (length rs) = length (records k)"
    by auto
  show "snd (delete_record i k)"
    and "Suc (length (records (fst (delete_record i k)))) = length (records k)"
    and "id_counter (fst (delete_record i k)) = id_counter k"
    and "counter_file (fst (delete_record i k)) = counter_file k"
    using rs ne len by (simp_all add: delete_record_def save_records_def)
qed

theorem delete_record_counter_reset_witness:
  "records (keeper_of [alice_record] 1) = [alice_record]
   \<and> map_option (record_id \<circ> snd)
        (add_record example_env ''C'' ''Memo'' ''HR'' None
           (fst (delete_record (record_id alice_record) (keeper_of [alice_record] 1))))
       = Some ''MAYOR'S OFFICE - 001''
   \<and> ''MAYOR'S OFFICE - 002'' \<in> record_id ` set (records (keeper_of blank_destination_records 2))
   \<and> 2 \<le> length (records (keeper_of blank_destination_records 2))
   \<and> id_counter (fst (delete_record ''MAYOR'S OFFICE - 002'' (keeper_of blank_destination_records 2)))
       = Some 2"
proof -
  have a: "records (keeper_of [alice_record] 1) = [alice_record]"
    by (simp add: keeper_of_def)
  have b: "''MAYOR'S OFFICE - 002'' \<in> record_id ` set (records (keeper_of blank_destination_records 2))
           \<and> 2 \<le> length (records (keeper_of blank_destination_records 2))"
    by (simp add: keeper_of_def blank_destination_records_def)
  have c: "id_counter (keeper_of blank_destination_records 2) = Some 2"
    by (simp add: keeper_of_def)
  from a b c show ?thesis
    using delete_record_counter_reset
      [of "keeper_of [alice_record] 1" alice_record example_env "''C''" "''Memo''" "''HR''" None
          "''MAYOR'S OFFICE - 002''"]
      delete_record_counter_reset
      [of "keeper_of blank_destination_records 2" alice_record example_env "''C''" "''Memo''" "''HR''" None
          "''MAYOR'S OFFICE - 002''"]
    by simp
qed

lemma RecordKeeper_sets_counter: "\<exists>c. id_counter (RecordKeeper e cls_counter df cf) = Some c"
  by (simp add: RecordKeeper_def load_counter_def)

lemma DocumentRecord_status:
  "DocumentRecord tm counter sndr subj dest dt rid auto_date st = Some (r, c') \<Longrightarrow>
   status r = (if st = ''Done'' \<or> st = ''Completed'' then ''Completed'' else ''Pending'')"
  by (auto simp: DocumentRecord_def split: option.splits if_splits)

lemma add_record_appends:
  "id_counter k = Some c \<Longrightarrow>
   \<exists>k' r. add_record e sndr subj dest dt k = Some (k', r)
     \<and> records k' = records k @ [r]
     \<and> record_id r = ''MAYOR'S OFFICE - '' @ format_03d (c + 1)
     \<and> sender r = sndr \<and> subject r = subj \<and> destination r = dest
     \<and> id_counter k' = Some (c + 1) \<and> counter_file k' = Some (c + 1)
     \<and> data_file k' = Some (map to_dict (records k'))"
  by (simp add: add_record_def DocumentRecord_def generate_id_def save_records_def
      save_counter_def)

text \<open>
  Claim C2, at the input where the code leaves it: \<open>edit_record\<close> assigns the status it
  is given. Editing the one record of a store with the status \<open>Archived\<close> leaves
  \<open>Archived\<close> in the collection and in the record file, where the constructor would have
  stored \<open>Pending\<close>.
\<close>

theorem edit_record_stores_any_status:
  "map status
     (records (fst (edit_record ''MAYOR'S OFFICE - 001''
                      (no_kwargs\<lparr>kw_status := Some ''Archived''\<rparr>) (keeper_of [alice_record] 1))))
     = [''Archived'']
   \<and> map_option (map d_status)
       (data_file (fst (edit_record ''MAYOR'S OFFICE - 001''
                          (no_kwargs\<lparr>kw_status := Some ''Archived''\<rparr>) (keeper_of [alice_record] 1))))
     = Some [Some ''Archived'']"
  by code_simp

text \<open>
  Claim C3, at the input where the code leaves it: \<open>add_record\<close> makes no test of its
  arguments. On an empty store, an add with the empty sender and the empty subject
  returns a record and appends it, under the id the counter gives.
\<close>

theorem add_record_takes_empty_sender:
  "map_option (\<lambda>kr. (map sender (records (fst kr)), map subject (records (fst kr)),
                      record_id (snd kr)))
     (add_record example_env [] [] ''HR'' None (keeper_of [] 0))
     = Some ([[]], [[]], ''MAYOR'S OFFICE - 001'')"
  by code_simp

section \<open>Properties of the date normalizer\<close>

lemma parse_and_format_date_null:
  "lower (strip s) \<in> set [[], ''nan'', ''nat'', ''none''] \<Longrightarrow> parse_and_format_date e s = None"
  by (auto simp: parse_and_format_date_def)

lemma parse_and_format_date_fallthrough:
  "lower (strip s) \<notin> set [[], ''nan'', ''nat'', ''none''] \<Longrightarrow>
   try_patterns date_patterns (strip s) = None \<Longrightarrow> pd_to_datetime e (strip s) = None \<Longrightarrow>
   parse_and_format_date e s = Some (strip s)"
  by (auto simp: parse_and_format_date_def strip_def strip_with_def lower_def)

lemma invalid_date_no_pattern: "try_patterns date_patterns ''13/40/2025'' = None"
  by code_simp

lemma invalid_date_stripped: "strip ''13/40/2025'' = ''13/40/2025''"
  by code_simp

lemma invalid_date_not_null: "lower ''13/40/2025'' \<notin> set [[], ''nan'', ''nat'', ''none'']"
  by code_simp

text \<open>
  Claim C8, as amended. The two spellings of 7 January 2025 normalize to
  \<open>2025-01-07\<close>. An input that is blank, or is \<open>nan\<close>, \<open>nat\<close> or \<open>none\<close> in any case once the
  white space around it is removed, gives the null value. An input that is none of
  these, for which no pattern of the list gives a valid date and which the generic
  parser does not parse, is returned with the white space around it removed: the
  original string when it has none, as for \<open>13/40/2025\<close>. The function is total: every
  exception the source catches is a branch here.
\<close>

theorem parse_and_format_date_normalizes:
  "parse_and_format_date e ''01/07/2025'' = Some ''2025-01-07''
   \<and> parse_and_format_date e ''2025-01-07'' = Some ''2025-01-07''
   \<and> (lower (strip s) \<in> set [[], ''nan'', ''nat'', ''none''] \<longrightarrow>
         parse_and_format_date e s = None)
   \<and> (lower (strip s) \<notin> set [[], ''nan'', ''nat'', ''none'']
        \<and> try_patterns date_patterns (strip s) = None \<and> pd_to_datetime e (strip s) = None \<longrightarrow>
         parse_and_format_date e s = Some (strip s))
   \<and> (pd_to_datetime e ''13/40/2025'' = None \<longrightarrow>
         parse_and_format_date e ''13/40/2025'' = Some ''13/40/2025'')"
proof (intro conjI impI)
  show "parse_and_format_date e ''01/07/2025'' = Some ''2025-01-07''"
    by code_simp
  show "parse_and_format_date e ''2025-01-07'' = Some ''2025-01-07''"
    by code_simp
  show "parse_and_format_date e s = None"
    if "lower (strip s) \<in> set [[], ''nan'', ''nat'', ''none'']"
    using that by (rule parse_and_format_date_null)
  show "parse_and_format_date e s = Some (strip s)"
    if "lower (strip s) \<notin> set [[], ''nan'', ''nat'', ''none'']
        \<and> try_patterns date_patterns (strip s) = None \<and> pd_to_datetime e (strip s) = None"
    using that parse_and_format_date_fallthrough [of s e] by blast
  show "parse_and_format_date e ''13/40/2025'' = Some ''13/40/2025''"
    if "pd_to_datetime e ''13/40/2025'' = None"
    using parse_and_format_date_fallthrough [of "''13/40/2025''" e] that
    by (simp only: invalid_date_stripped invalid_date_no_pattern invalid_date_not_null
        not_False_eq_True)
qed

theorem parse_and_format_date_normalizes_witness:
  "lower (strip ''  NaN '') = ''nan''
   \<and> parse_and_format_date example_env ''  NaN '' = None
   \<and> lower (strip ([CHR 0xA0] @ ''NaT'' @ [CHR 0x85])) = ''nat''
   \<and> parse_and_format_date example_env ([CHR 0xA0] @ ''NaT'' @ [CHR 0x85]) = None
   \<and> strip '' 13/40/2025 '' = ''13/40/2025''
   \<and> try_patterns date_patterns (strip '' 13/40/2025 '') = None
   \<and> pd_to_datetime example_env (strip '' 13/40/2025 '') = None
   \<and> parse_and_format_date example_env '' 13/40/2025 '' = Some ''13/40/2025''
   \<and> parse_and_format_date example_env ''13/40/2025'' = Some ''13/40/2025''"
proof -
  have a: "lower (strip ''  NaN '') = ''nan''" by code_simp
  have b: "strip '' 13/40/2025 '' = ''13/40/2025''" by code_simp
  have c: "try_patterns date_patterns (strip '' 13/40/2025 '') = None" by code_simp
  have d: "pd_to_datetime example_env t = None" for t by (simp add: example_env_def)
  have e: "lower (strip '' 13/40/2025 '') \<notin> set [[], ''nan'', ''nat'', ''none'']" by code_simp
  have f: "lower (strip ([CHR 0xA0] @ ''NaT'' @ [CHR 0x85])) = ''nat''" by code_simp
  from a b c d e f show ?thesis
    using parse_and_format_date_normalizes [of example_env "''  NaN ''"]
      parse_and_format_date_normalizes [of example_env "'' 13/40/2025 ''"]
      parse_and_format_date_normalizes [of example_env "[CHR 0xA0] @ ''NaT'' @ [CHR 0x85]"]
    by simp
qed

text \<open>
  The claim as first stated, that such an input comes back unchanged, fails on an input
  with white space around it: no pattern parses it, the generic parser does not, and the
  result is the stripped text, not the input.
\<close>

theorem parse_and_format_date_strips_counterexample:
  "try_patterns date_patterns '' 13/40/2025 '' = None
   \<and> try_patterns date_patterns (strip '' 13/40/2025 '') = None
   \<and> pd_to_datetime example_env '' 13/40/2025 '' = None
   \<and> pd_to_datetime example_env (strip '' 13/40/2025 '') = None
   \<and> parse_and_format_date example_env '' 13/40/2025 '' \<noteq> Some '' 13/40/2025 ''"
  by code_simp


section \<open>Properties of import and restore\<close>

lemma cell_text_empty_iff:
  "cell_text cols col row = Some [] \<longleftrightarrow>
     col = None
     \<or> (\<exists>c. col = Some c \<and> row_cell cols row c = Some NaN)
     \<or> (\<exists>c v. col = Some c \<and> row_cell cols row c = Some (Val v) \<and> strip v = [])"
  by (auto simp: cell_text_def split: option.splits cell.splits)

lemma cell_text_raises_iff:
  "cell_text cols col row = None \<longleftrightarrow> (\<exists>c. col = Some c \<and> row_cell cols row c = None)"
  by (auto simp: cell_text_def split: option.splits cell.splits)

lemma import_row_skipped: "row_outcome cols row = Skipped \<Longrightarrow> import_row e cols b row = b"
  by (auto simp: row_outcome_def import_row_def split: if_splits option.splits)

lemma import_row_errored:
  "row_outcome cols row = Errored \<Longrightarrow> import_row e cols b row = row_error b"
  by (auto simp: row_outcome_def import_row_def split: if_splits option.splits)

lemma import_row_imported:
  assumes "row_outcome cols row = Imported" and "b_counter b = Some c"
  shows "\<exists>r. import_row e cols b row = row_added b (r, Some (c + 1))
           \<and> record_id r = ''MAYOR'S OFFICE - '' @ format_03d (c + 1)
           \<and> sender r = row_text cols ''sender'' row
           \<and> subject r = row_text cols ''subject'' row"
  using assms
  by (auto simp: row_outcome_def import_row_def row_text_def DocumentRecord_def generate_id_def
      split: if_splits option.splits)

lemma import_rows_Cons:
  "import_rows e cols b (row # rows) = import_rows e cols (import_row e cols b row) rows"
  by (simp add: import_rows_def)

lemma import_rows_totals:
  "b_counter b = Some c \<Longrightarrow>
   \<exists>new. b_records (import_rows e cols b rows) = b_records b @ new
     \<and> map sender new
         = map (row_text cols ''sender'') (filter (\<lambda>row. row_outcome cols row = Imported) rows)
     \<and> map subject new
         = map (row_text cols ''subject'') (filter (\<lambda>row. row_outcome cols row = Imported) rows)
     \<and> b_counter (import_rows e cols b rows)
         = Some (c + int (length (filter (\<lambda>row. row_outcome cols row = Imported) rows)))
     \<and> imported_count (import_rows e cols b rows)
         = imported_count b + length (filter (\<lambda>row. row_outcome cols row = Imported) rows)
     \<and> error_count (import_rows e cols b rows)
         = error_count b + length (filter (\<lambda>row. row_outcome cols row = Errored) rows)"
proof (induction rows arbitrary: b c)
  case Nil
  then show ?case by (simp add: import_rows_def)
next
  case (Cons row rows)
  show ?case
  proof (cases "row_outcome cols row")
    case Imported
    from import_row_imported [OF Imported Cons.prems, of e]
    obtain r where r: "import_row e cols b row = row_added b (r, Some (c + 1))"
      "sender r = row_text cols ''sender'' row" "subject r = row_text cols ''subject'' row"
      by blast
    have "b_counter (row_added b (r, Some (c + 1))) = Some (c + 1)"
      by (simp add: row_added_def)
    from Cons.IH [OF this, of ] obtain new where
      new: "b_records (import_rows e cols (row_added b (r, Some (c + 1))) rows)
              = b_records (row_added b (r, Some (c + 1))) @ new"
        "map sender new
          = map (row_text cols ''sender'') (filter (\<lambda>row. row_outcome cols row = Imported) rows)"
        "map subject new
          = map (row_text cols ''subject'') (filter (\<lambda>row. row_outcome cols row = Imported) rows)"
        "b_counter (import_rows e cols (row_added b (r, Some (c + 1))) rows)
          = Some (c + 1 + int (length (filter (\<lambda>row. row_outcome cols row = Imported) rows)))"
        "imported_count (import_rows e cols (row_added b (r, Some (c + 1))) rows)
          = imported_count (row_added b (r, Some (c + 1)))
            + length (filter (\<lambda>row. row_outcome cols row = Imported) rows)"
        "error_count (import_rows e cols (row_added b (r, Some (c + 1))) rows)
          = error_count (row_added b (r, Some (c + 1)))
            + length (filter (\<lambda>row. row_outcome cols row = Errored) rows)"
      by blast
    have "b_records (import_rows e cols b (row # rows)) = b_records b @ (r # new)"
      using r new by (simp add: import_rows_Cons row_added_def)
    then show ?thesis
      using r new Imported by (intro exI [of _ "r # new"]) (simp add: import_rows_Cons row_added_def)
  next
    case Skipped
    with Cons.IH [OF Cons.prems] show ?thesis
      by (simp add: import_rows_Cons import_row_skipped)
  next
    case Errored
    have "b_counter (row_error b) = Some c"
      using Cons.prems by (simp add: row_error_def)
    from Cons.IH [OF this] Errored show ?thesis
      by (simp add: import_rows_Cons import_row_errored row_error_def)
  qed
qed

text \<open>
  Claim C6. In the loop of the tabular import, whatever the mode, a row none of whose
  cells raises and whose sender or subject is missing or empty leaves the batch as it
  was: no record, no count. A row a cell of which raises adds one to the error count and
  nothing else, and the loop goes on: over all rows, the imported count grows by the
  number of rows taken, the error count by the number of rows that raised, and the
  records added carry the senders and subjects of the rows taken, in order.
\<close>

theorem import_rows_skip_policy:
  "b_counter b = Some c \<longrightarrow>
     (row_outcome cols row = Skipped \<longrightarrow> import_row e cols b row = b)
     \<and> (row_outcome cols row = Errored \<longrightarrow>
          import_row e cols b row = b\<lparr>error_count := error_count b + 1\<rparr>)
     \<and> imported_count (import_rows e cols b rows)
         = imported_count b + length (filter (\<lambda>row. row_outcome cols row = Imported) rows)
     \<and> error_count (import_rows e cols b rows)
         = error_count b + length (filter (\<lambda>row. row_outcome cols row = Errored) rows)
     \<and> map sender (b_records (import_rows e cols b rows))
         = map sender (b_records b)
           @ map (row_text cols ''sender'') (filter (\<lambda>row. row_outcome cols row = Imported) rows)
     \<and> map subject (b_records (import_rows e cols b rows))
         = map subject (b_records b)
           @ map (row_text cols ''subject'') (filter (\<lambda>row. row_outcome cols row = Imported) rows)"
proof
  assume c: "b_counter b = Some c"
  from import_rows_totals [OF c, of e cols rows] obtain new where
    "b_records (import_rows e cols b rows) = b_records b @ new"
    "map sender new
       = map (row_text cols ''sender'') (filter (\<lambda>row. row_outcome cols row = Imported) rows)"
    "map subject new
       = map (row_text cols ''subject'') (filter (\<lambda>row. row_outcome cols row = Imported) rows)"
    "imported_count (import_rows e cols b rows)
       = imported_count b + length (filter (\<lambda>row. row_outcome cols row = Imported) rows)"
    "error_count (import_rows e cols b rows)
       = error_count b + length (filter (\<lambda>row. row_outcome cols row = Errored) rows)"
    by blast
  then show "(row_outcome cols row = Skipped \<longrightarrow> import_row e cols b row = b)
     \<and> (row_outcome cols row = Errored \<longrightarrow>
          import_row e cols b row = b\<lparr>error_count := error_count b + 1\<rparr>)
     \<and> imported_count (import_rows e cols b rows)
         = imported_count b + length (filter (\<lambda>row. row_outcome cols row = Imported) rows)
     \<and> error_count (import_rows e cols b rows)
         = error_count b + length (filter (\<lambda>row. row_outcome cols row = Errored) rows)
     \<and> map sender (b_records (import_rows e cols b rows))
         = map sender (b_records b)
           @ map (row_text cols ''sender'') (filter (\<lambda>row. row_outcome cols row = Imported) rows)
     \<and> map subject (b_records (import_rows e cols b rows))
         = map subject (b_records b)
           @ map (row_text cols ''subject'') (filter (\<lambda>row. row_outcome cols row = Imported) rows)"
    using import_row_skipped [of cols row e b] import_row_errored [of cols row e b]
    by (simp add: row_error_def)
qed

theorem import_rows_skip_policy_witness:
  "b_counter (new_batch (keeper_of [] 0)) = Some 0
   \<and> row_outcome (columns three_rows) (sheet_rows three_rows ! 1) = Skipped
   \<and> import_row example_env (columns three_rows) (new_batch (keeper_of [] 0))
        (sheet_rows three_rows ! 1) = new_batch (keeper_of [] 0)
   \<and> imported_count (import_rows example_env (columns three_rows) (new_batch (keeper_of [] 0))
        (sheet_rows three_rows)) = 2
   \<and> error_count (import_rows example_env (columns three_rows) (new_batch (keeper_of [] 0))
        (sheet_rows three_rows)) = 0
   \<and> map sender (b_records (import_rows example_env (columns three_rows)
        (new_batch (keeper_of [] 0)) (sheet_rows three_rows))) = [''Ana'', ''Cy'']
   \<and> map subject (b_records (import_rows example_env (columns three_rows)
        (new_batch (keeper_of [] 0)) (sheet_rows three_rows))) = [''Invoice'', ''Memo'']
   \<and> row_outcome (columns invalid_rows) (sheet_rows invalid_rows ! 2) = Skipped
   \<and> import_row example_env (columns invalid_rows) (new_batch (keeper_of [] 0))
        (sheet_rows invalid_rows ! 2) = new_batch (keeper_of [] 0)
   \<and> row_outcome (columns ragged_rows) (sheet_rows ragged_rows ! 0) = Errored
   \<and> error_count (import_row example_env (columns ragged_rows) (new_batch (keeper_of [] 0))
        (sheet_rows ragged_rows ! 0)) = 1
   \<and> imported_count (import_rows example_env (columns ragged_rows) (new_batch (keeper_of [] 0))
        (sheet_rows ragged_rows)) = 1
   \<and> error_count (import_rows example_env (columns ragged_rows) (new_batch (keeper_of [] 0))
        (sheet_rows ragged_rows)) = 1"
proof -
  have c: "b_counter (new_batch (keeper_of [] 0)) = Some 0"
    by (simp add: new_batch_def keeper_of_def)
  have z: "imported_count (new_batch (keeper_of [] 0)) = 0"
    "error_count (new_batch (keeper_of [] 0)) = 0" "b_records (new_batch (keeper_of [] 0)) = []"
    by (simp_all add: new_batch_def keeper_of_def)
  have s: "row_outcome (columns three_rows) (sheet_rows three_rows ! 1) = Skipped"
    by code_simp
  have i3: "filter (\<lambda>row. row_outcome (columns three_rows) row = Imported) (sheet_rows three_rows)
              = [sheet_rows three_rows ! 0, sheet_rows three_rows ! 2]"
    by code_simp
  have e3: "filter (\<lambda>row. row_outcome (columns three_rows) row = Errored) (sheet_rows three_rows)
              = []"
    by code_simp
  have t3: "map (row_text (columns three_rows) ''sender'')
              [sheet_rows three_rows ! 0, sheet_rows three_rows ! 2] = [''Ana'', ''Cy'']"
    "map (row_text (columns three_rows) ''subject'')
              [sheet_rows three_rows ! 0, sheet_rows three_rows ! 2] = [''Invoice'', ''Memo'']"
    by code_simp+
  have r: "row_outcome (columns ragged_rows) (sheet_rows ragged_rows ! 0) = Errored"
    by code_simp
  have i2: "length (filter (\<lambda>row. row_outcome (columns ragged_rows) row = Imported)
              (sheet_rows ragged_rows)) = 1"
    by code_simp
  have e2: "length (filter (\<lambda>row. row_outcome (columns ragged_rows) row = Errored)
              (sheet_rows ragged_rows)) = 1"
    by code_simp
  have n: "row_outcome (columns invalid_rows) (sheet_rows invalid_rows ! 2) = Skipped"
    by code_simp
  from c z s i3 e3 t3 r i2 e2 n show ?thesis
    using import_rows_skip_policy
        [of "new_batch (keeper_of [] 0)" 0 "columns three_rows" "sheet_rows three_rows ! 1"
            example_env "sheet_rows three_rows"]
      import_rows_skip_policy
        [of "new_batch (keeper_of [] 0)" 0 "columns invalid_rows" "sheet_rows invalid_rows ! 2"
            example_env "[]"]
      import_rows_skip_policy
        [of "new_batch (keeper_of [] 0)" 0 "columns ragged_rows" "sheet_rows ragged_rows ! 0"
            example_env "sheet_rows ragged_rows"]
    by simp
qed

lemma missing_column_cell_text: "cell_text cols None row = Some []"
  by (simp add: cell_text_def)

lemma missing_required_column_not_imported:
  "normalized_columns cols ''sender'' = None \<or> normalized_columns cols ''subject'' = None \<Longrightarrow>
   row_outcome cols row \<noteq> Imported"
  by (auto simp: row_outcome_def missing_column_cell_text)

lemma new_batch_fields:
  "b_records (new_batch k) = records k" "b_counter (new_batch k) = id_counter k"
  "imported_count (new_batch k) = 0" "error_count (new_batch k) = 0"
  by (simp_all add: new_batch_def)

text \<open>
  Claim C5. An additive import on a constructed keeper: when no row of the sheet ends up
  valid (also when a required column is absent, or no sheet could be read), the call
  returns failure and the whole state is the one before the call; when a row is valid,
  the call returns success, the collection is the old one followed by one record per
  valid row, and it is written to the record file.
\<close>

theorem import_from_excel_additive_rollback:
  "id_counter k = Some c \<longrightarrow>
     import_from_excel e None False k = (k, False)
     \<and> (imported_rows df = [] \<longrightarrow> import_from_excel e (Some df) False k = (k, False))
     \<and> (imported_rows df \<noteq> [] \<longrightarrow>
          snd (import_from_excel e (Some df) False k)
          \<and> (\<exists>new. records (fst (import_from_excel e (Some df) False k)) = records k @ new
                \<and> length new = length (imported_rows df)
                \<and> map sender new = map (row_text (columns df) ''sender'') (imported_rows df)
                \<and> map subject new = map (row_text (columns df) ''subject'') (imported_rows df))
          \<and> data_file (fst (import_from_excel e (Some df) False k))
              = Some (map to_dict (records (fst (import_from_excel e (Some df) False k)))))"
proof
  assume c: "id_counter k = Some c"
  let ?valid = "filter (\<lambda>row. row_outcome (columns df) row = Imported) (sheet_rows df)"
  let ?b = "import_rows e (columns df) (new_batch k) (sheet_rows df)"
  have none: "import_from_excel e None False k = (k, False)"
    by (simp add: import_from_excel_def)
  have valid: "imported_rows df = ?valid"
    by (simp add: imported_rows_def)
  from import_rows_totals [of "new_batch k" c e "columns df" "sheet_rows df"] c
  obtain new where new: "b_records ?b = records k @ new"
    "map sender new = map (row_text (columns df) ''sender'') ?valid"
    "map subject new = map (row_text (columns df) ''subject'') ?valid"
    "b_counter ?b = Some (c + int (length ?valid))"
    "imported_count ?b = length ?valid"
    by (auto simp: new_batch_fields)
  from new(2) have len: "length new = length ?valid"
    by (metis length_map)
  show "import_from_excel e None False k = (k, False)
     \<and> (imported_rows df = [] \<longrightarrow> import_from_excel e (Some df) False k = (k, False))
     \<and> (imported_rows df \<noteq> [] \<longrightarrow>
          snd (import_from_excel e (Some df) False k)
          \<and> (\<exists>new. records (fst (import_from_excel e (Some df) False k)) = records k @ new
                \<and> length new = length (imported_rows df)
                \<and> map sender new = map (row_text (columns df) ''sender'') (imported_rows df)
                \<and> map subject new = map (row_text (columns df) ''subject'') (imported_rows df))
          \<and> data_file (fst (import_from_excel e (Some df) False k))
              = Some (map to_dict (records (fst (import_from_excel e (Some df) False k)))))"
  proof (cases "normalized_columns (columns df) ''sender'' = None
                \<or> normalized_columns (columns df) ''subject'' = None")
    case True
    then have "?valid = []"
      using missing_required_column_not_imported [of "columns df"]
      by (simp add: filter_empty_conv)
    with True none show ?thesis
      by (simp add: import_from_excel_def valid)
  next
    case False
    then have run: "import_from_excel e (Some df) False k
                 = finish_batch False (records k) k ?b"
      by (auto simp: import_from_excel_def start_batch_def)
    show ?thesis
    proof (cases "?valid = []")
      case True
      with new len c have "finish_batch False (records k) k ?b = (k, False)"
        by (simp add: finish_batch_def)
      with True none run show ?thesis by (simp add: valid)
    next
      case nonempty: False
      with new have "finish_batch False (records k) k ?b
          = (save_records (k\<lparr>records := records k @ new, id_counter := b_counter ?b\<rparr>), True)"
        by (simp add: finish_batch_def)
      with nonempty none run new len show ?thesis
        by (simp add: valid save_records_def)
    qed
  qed
qed

theorem import_from_excel_additive_rollback_witness:
  "id_counter (keeper_of [alice_record] 1) = Some 1
   \<and> imported_rows invalid_rows = []
   \<and> import_from_excel example_env (Some invalid_rows) False (keeper_of [alice_record] 1)
       = (keeper_of [alice_record] 1, False)
   \<and> records (fst (import_from_excel example_env (Some invalid_rows) False
        (keeper_of [alice_record] 1))) = [alice_record]
   \<and> length (imported_rows three_rows) = 2
   \<and> snd (import_from_excel example_env (Some three_rows) False (keeper_of [alice_record] 1))
   \<and> map sender (records (fst (import_from_excel example_env (Some three_rows) False
        (keeper_of [alice_record] 1)))) = [''Alice'', ''Ana'', ''Cy'']"
proof -
  have c: "id_counter (keeper_of [alice_record] 1) = Some 1"
    and r: "records (keeper_of [alice_record] 1) = [alice_record]"
    by (simp_all add: keeper_of_def)
  have i: "imported_rows invalid_rows = []"
    by code_simp
  have t: "length (imported_rows three_rows) = 2"
    by code_simp
  have s: "map sender (records (fst (import_from_excel example_env (Some three_rows) False
        (keeper_of [alice_record] 1)))) = [''Alice'', ''Ana'', ''Cy'']"
    by code_simp
  from t have ne: "imported_rows three_rows \<noteq> []"
    by auto
  from c r i t s ne show ?thesis
    using import_from_excel_additive_rollback
        [of "keeper_of [alice_record] 1" 1 example_env invalid_rows]
      import_from_excel_additive_rollback
        [of "keeper_of [alice_record] 1" 1 example_env three_rows]
    by simp
qed

text \<open>
  Claim C1, at inputs where the code leaves it: import and restore write the record
  file and not the counter file. An additive import of two valid rows into an empty
  store with counter file 0 writes the ids 001 and 002 and leaves the counter file at 0;
  so does an import that replaces; an additive restore of one record into a store of
  one record, counter file 1, writes the id 002 and leaves the counter file at 1. The
  add path writes both files.
\<close>

theorem import_and_restore_leave_counter_file_behind:
  "counter_file (fst (import_from_excel example_env (Some three_rows) False (keeper_of [] 0)))
     = Some 0
   \<and> map_option (map d_id)
       (data_file (fst (import_from_excel example_env (Some three_rows) False (keeper_of [] 0))))
     = Some [Some ''MAYOR'S OFFICE - 001'', Some ''MAYOR'S OFFICE - 002'']
   \<and> id_number ''MAYOR'S OFFICE - 002'' = Some 2
   \<and> counter_file (fst (import_from_excel example_env (Some three_rows) True
        (keeper_of [alice_record] 1))) = Some 0
   \<and> map_option (map d_id)
       (data_file (fst (import_from_excel example_env (Some three_rows) True
          (keeper_of [alice_record] 1))))
     = Some [Some ''MAYOR'S OFFICE - 001'', Some ''MAYOR'S OFFICE - 002'']
   \<and> counter_file (fst (restore_from_backup example_env (Some example_backup) False
        (keeper_of [alice_record] 1))) = Some 1
   \<and> map_option (map d_id)
       (data_file (fst (restore_from_backup example_env (Some example_backup) False
          (keeper_of [alice_record] 1))))
     = Some [Some ''MAYOR'S OFFICE - 001'', Some ''MAYOR'S OFFICE - 002'']
   \<and> map_option (record_id \<circ> snd)
       (add_record example_env ''A'' ''Invoice'' ''Finance'' None (keeper_of [] 0))
     = Some ''MAYOR'S OFFICE - 001''
   \<and> map_option (counter_file \<circ> fst)
       (add_record example_env ''A'' ''Invoice'' ''Finance'' None (keeper_of [] 0))
     = Some (Some 1)"
  by code_simp


section \<open>Properties of loading\<close>

lemma max_counter_ids: "max_counter rs = max_id_number (map record_id rs)"
proof -
  have "foldl (\<lambda>m r. case id_number (record_id r) of None \<Rightarrow> m | Some n \<Rightarrow> max m n) a rs
          = foldl (\<lambda>m i. case id_number i of None \<Rightarrow> m | Some n \<Rightarrow> max m n) a (map record_id rs)"
    for a
    by (induction rs arbitrary: a) simp_all
  then show ?thesis by (simp add: max_counter_def max_id_number_def)
qed

lemma from_dict_well_formed:
  "well_formed d \<Longrightarrow>
   \<exists>r. from_dict tm None d = Some (r, None) \<and> record_id r = stored_id d"
  by (auto simp: well_formed_def from_dict_def DocumentRecord_def stored_id_def)

lemma from_dicts_well_formed:
  "list_all well_formed ds \<Longrightarrow>
   \<exists>rs. from_dicts tm None ds = (Some rs, None) \<and> map record_id rs = map stored_id ds"
proof (induction ds)
  case Nil
  then show ?case by simp
next
  case (Cons d ds)
  then obtain r rs where "from_dict tm None d = Some (r, None)" "record_id r = stored_id d"
    "from_dicts tm None ds = (Some rs, None)" "map record_id rs = map stored_id ds"
    using from_dict_well_formed [of d tm] by auto
  then show ?case by simp
qed

lemma update_date_id: "record_id (update_date e r) = record_id r"
  by (simp add: update_date_def split: option.splits)

lemma update_existing_dates_to_iso_ids:
  "map record_id (records (update_existing_dates_to_iso e k)) = map record_id (records k)"
  "id_counter (update_existing_dates_to_iso e k) = id_counter k"
  "counter_file (update_existing_dates_to_iso e k) = counter_file k"
  by (simp_all add: update_existing_dates_to_iso_def save_records_def update_date_id)

lemma fresh_load_counter:
  assumes "ds \<noteq> []" and "list_all well_formed ds"
  shows "id_counter (RecordKeeper e None (Some ds) cf) = Some (max_id_number (map stored_id ds))"
    and "counter_file (RecordKeeper e None (Some ds) cf) = Some (max_id_number (map stored_id ds))"
    and "map record_id (records (RecordKeeper e None (Some ds) cf)) = map stored_id ds"
proof -
  from from_dicts_well_formed [OF assms(2), of "now e"] obtain rs where
    rs: "from_dicts (now e) None ds = (Some rs, None)" "map record_id rs = map stored_id ds"
    by blast
  let ?k0 = "\<lparr>records = [], id_counter = None, data_file = Some ds, counter_file = cf\<rparr>"
  let ?k1 = "update_existing_dates_to_iso e (?k0\<lparr>records := rs, id_counter := None\<rparr>)"
  have ids: "map record_id (records ?k1) = map stored_id ds"
    and none: "id_counter ?k1 = None"
    using rs by (simp_all add: update_existing_dates_to_iso_ids)
  from ids assms(1) have ne: "records ?k1 \<noteq> []" by auto
  have load: "load_records e ?k0 = initialize_counter_from_records ?k1"
    using rs by (simp add: load_records_def)
  have init: "id_counter (initialize_counter_from_records ?k1)
                = Some (max_id_number (map stored_id ds))"
    "counter_file (initialize_counter_from_records ?k1)
                = Some (max_id_number (map stored_id ds))"
    "records (initialize_counter_from_records ?k1) = records ?k1"
    using ne none ids
    by (simp_all add: initialize_counter_from_records_def save_counter_def max_counter_ids)
  show "id_counter (RecordKeeper e None (Some ds) cf) = Some (max_id_number (map stored_id ds))"
    and "counter_file (RecordKeeper e None (Some ds) cf) = Some (max_id_number (map stored_id ds))"
    and "map record_id (records (RecordKeeper e None (Some ds) cf)) = map stored_id ds"
    using load init ids by (simp_all add: RecordKeeper_def load_counter_def)
qed

lemma fresh_load_then_add:
  assumes "ds \<noteq> []" and "list_all well_formed ds"
  shows "map_option (record_id \<circ> snd)
           (add_record e sndr subj dest dt (RecordKeeper e None (Some ds) cf))
         = Some (''MAYOR'S OFFICE - '' @ format_03d (max_id_number (map stored_id ds) + 1))"
  using add_record_id [OF fresh_load_counter(1) [OF assms]] .

text \<open>
  Claim C4, at an input where the code leaves it. The first part of the claim holds, by
  the two lemmas above: a fresh process that loads a non-empty record file ends with the
  counter at the highest number of the stored ids, whatever the counter file says, so a
  file of suffix 057 gives 058 next. But the constructor loads the records before it
  reads the counter file, so the counter the reconciliation sees is not yet set, and the
  value it writes replaces the file: with one stored record of suffix 003 and a counter
  file of 5, the counter file and the counter become 3 and the next id is 004.
\<close>

theorem fresh_load_lowers_counter_file:
  "counter_file (RecordKeeper example_env None (Some [record_numbered ''MAYOR'S OFFICE - 003''])
     (Some 5)) = Some 3
   \<and> id_counter (RecordKeeper example_env None (Some [record_numbered ''MAYOR'S OFFICE - 003''])
     (Some 5)) = Some 3
   \<and> map_option (record_id \<circ> snd)
       (add_record example_env ''B'' ''Report'' ''Ops'' None
          (RecordKeeper example_env None (Some [record_numbered ''MAYOR'S OFFICE - 003''])
             (Some 5)))
     = Some ''MAYOR'S OFFICE - 004''
   \<and> map_option (record_id \<circ> snd)
       (add_record example_env ''B'' ''Report'' ''Ops'' None
          (RecordKeeper example_env None (Some [record_numbered ''MAYOR'S OFFICE - 057''])
             (Some 3)))
     = Some ''MAYOR'S OFFICE - 058''"
  by code_simp

end
